theory Spec2Isabelle
  imports Complex_Main "HOL-Library.Char_ord" "HOL-Library.List_Lexorder" "HOL-Library.Sublist"
    "HOL-Library.Multiset"
begin

section \<open>Data model of the Blockza directory server (src/index.ts)\<close>

text \<open>
  The TypeScript interfaces become records with the source's field names (\<open>_id\<close> is
  written \<open>id'\<close>, \<open>__v\<close> is \<open>v'\<close>, \<open>image\<close> is \<open>image'\<close>). A field name used by several
  interfaces is written qualified (\<open>Company.category\<close>, \<open>Event.category\<close>).
  JavaScript numbers are modelled as integers: the counters (likes, views), the lengths
  and the limits of the handlers are integer valued. Strings are lists of 8-bit code
  units, ordered code unit by code unit as the default \<open>Array.prototype.sort\<close> orders them.
\<close>

record SocialLinks =
  facebook :: string
  linkedin :: string
  telegram :: string
  twitter :: string
  youtube :: string

record PromotionSettings =
  hasAffiliateProgram :: bool
  interestedInBusinessPartnership :: bool

record TeamMember =
  id' :: string
  name :: string
  title :: string
  email :: string
  image' :: string
  linkedinUrl :: string
  price :: int
  bookingMethods :: "string list"
  status :: string
  followers :: int
  responseRate :: int

record Company =
  id' :: string
  name :: string
  slug :: string
  shortDescription :: string
  detail :: string
  category :: string
  logo :: string
  banner :: string
  founderName :: string
  founderDetails :: string
  founderEmail :: string
  founderImage :: string
  verificationStatus :: string
  url :: string
  isPromoted :: bool
  likes :: int
  views :: int
  socialLinks :: SocialLinks
  promotionSettings :: PromotionSettings
  teamMembers :: "TeamMember list"
  createdAt :: string
  updatedAt :: string
  followerPrice :: int
  founderFollowers :: int
  founderResponseRate :: int

record ApiResponse =
  success :: bool
  data :: "Company list"

record EventSocialLinks =
  linkedin :: string
  telegram :: string
  twitter :: string
  instagram :: string

record Event =
  id' :: string
  title :: string
  company :: string
  description :: string
  location :: string
  country :: string
  city :: string
  eventStartDate :: string
  eventEndDate :: string
  category :: string
  website :: string
  featuredImage :: string
  socialLinks :: EventSocialLinks
  createdAt :: string
  updatedAt :: string
  v' :: int

section \<open>The JavaScript runtime the server relies on\<close>

text \<open>
  A thrown value or a rejected promise is an \<open>error\<close> (its name and its message); every
  asynchronous function returns \<open>error + 'a\<close>, \<open>Inl\<close> being the rejection.
\<close>

datatype error = Error string string

fun error_toString :: "error \<Rightarrow> string" where
  "error_toString (Error n m) = (if m = [] then n else if n = [] then m else n @ '': '' @ m)"

text \<open>
  \<open>JSON.stringify\<close> is not evaluated: a text is a list of segments, a literal piece of a
  template string or a JSON value standing for its serialisation.
\<close>

datatype json = JNull | JBool bool | JNum int | JStr string | JArr "json list" | JObj "(string \<times> json) list"

datatype segment = Lit string | Json json

definition digit_char :: "nat \<Rightarrow> char" where
  "digit_char n = ''0123456789'' ! n"

fun string_of_nat :: "nat \<Rightarrow> string" where
  "string_of_nat n = (if n < 10 then [digit_char n] else string_of_nat (n div 10) @ [digit_char (n mod 10)])"

declare string_of_nat.simps [simp del]

text \<open>\<open>Number.prototype.toString\<close> on an integer valued number.\<close>

definition number_toString :: "int \<Rightarrow> string" where
  "number_toString i = (if i < 0 then ''-'' @ string_of_nat (nat (- i)) else string_of_nat (nat i))"

definition boolean_toString :: "bool \<Rightarrow> string" where
  "boolean_toString b = (if b then ''true'' else ''false'')"

text \<open>\<open>Array.prototype.slice(0, end)\<close>: a negative end counts from the end of the array.\<close>

definition slice0 :: "'a list \<Rightarrow> int \<Rightarrow> 'a list" where
  "slice0 xs n = (if n < 0 then take (nat (int (length xs) + n)) xs else take (nat n) xs)"

text \<open>
  \<open>Array.prototype.sort(compare)\<close>, which is stable: an element moves behind another one
  only when the comparator gives a positive number for the pair.
\<close>

fun insort_cmp :: "('a \<Rightarrow> 'a \<Rightarrow> int) \<Rightarrow> 'a \<Rightarrow> 'a list \<Rightarrow> 'a list" where
  "insort_cmp cmp x [] = [x]"
| "insort_cmp cmp x (y # ys) = (if cmp x y \<le> 0 then x # y # ys else y # insort_cmp cmp x ys)"

definition array_sort :: "('a \<Rightarrow> 'a \<Rightarrow> int) \<Rightarrow> 'a list \<Rightarrow> 'a list" where
  "array_sort cmp xs = foldr (insort_cmp cmp) xs []"


text \<open>
  \<open>parseInt(s, 10)\<close>: leading white space is skipped, then an optional sign, then the
  longest run of decimal digits; no digit gives NaN, which is \<open>None\<close>.
\<close>

definition isWhiteSpace :: "char \<Rightarrow> bool" where
  "isWhiteSpace c = (of_char c \<in> {9, 10, 11, 12, 13, 32, 160 :: nat})"

definition isDigit :: "char \<Rightarrow> bool" where
  "isDigit c = (48 \<le> (of_char c :: nat) \<and> (of_char c :: nat) \<le> 57)"

definition digits_value :: "string \<Rightarrow> nat" where
  "digits_value ds = foldl (\<lambda>acc c. 10 * acc + (of_char c - 48)) 0 ds"

definition parseInt10 :: "string \<Rightarrow> int option" where
  "parseInt10 s =
     (let t = dropWhile isWhiteSpace s;
          neg = (t \<noteq> [] \<and> hd t = CHR ''-'');
          u = (if t \<noteq> [] \<and> (hd t = CHR ''+'' \<or> hd t = CHR ''-'') then tl t else t);
          z = takeWhile isDigit u
      in if z = [] then None
         else Some (if neg then - int (digits_value z) else int (digits_value z)))"

subsection \<open>The upstream API, the clock and the log of requests\<close>

text \<open>
  A request is the endpoint and the query parameters set on the URL, in order. The
  upstream answers a request, knowing the requests made before it; \<open>fetch\<close> either
  rejects or resolves with a status, a status text and the outcome of \<open>response.json()\<close>.
  The requests issued are appended to a log, which every asynchronous function threads.
  \<open>new Date(s)\<close> is \<open>parseDate\<close>, the milliseconds of the date or \<open>None\<close> for an invalid
  date; \<open>now\<close> is the clock; \<open>toFixed2\<close> is \<open>Number.prototype.toFixed(2)\<close>.
\<close>

record request =
  endpoint :: string
  searchParams :: "(string \<times> string) list"

datatype 'b fetch_result = Rejected error | Resolved int string "error + 'b"

datatype events_json = JsonArray "Event list" | JsonOther

record runtime =
  directory :: "request list \<Rightarrow> request \<Rightarrow> ApiResponse fetch_result"
  events :: "request list \<Rightarrow> request \<Rightarrow> events_json fetch_result"
  now :: int
  parseDate :: "string \<Rightarrow> int option"
  toFixed2 :: "real \<Rightarrow> string"

definition response_ok :: "int \<Rightarrow> bool" where
  "response_ok st = (200 \<le> st \<and> st \<le> 299)"

text \<open>
  \<open>url.searchParams.set(k, v)\<close>: the value of an existing key is replaced, a new key is
  appended. The client sets every key at most once on a fresh URL.
\<close>

definition searchParams_set :: "string \<Rightarrow> string \<Rightarrow> request \<Rightarrow> request" where
  "searchParams_set k v r =
     r\<lparr>searchParams := (if k \<in> fst ` set (searchParams r)
                         then map (\<lambda>(k', v'). if k' = k then (k', v) else (k', v')) (searchParams r)
                         else searchParams r @ [(k, v)])\<rparr>"

definition fetch :: "(request list \<Rightarrow> request \<Rightarrow> 'b fetch_result) \<Rightarrow> request \<Rightarrow> request list
    \<Rightarrow> 'b fetch_result \<times> request list" where
  "fetch api r reqs = (api reqs r, reqs @ [r])"

text \<open>\<open>new Date(s) > now\<close>: an invalid date compares false.\<close>

definition date_after :: "runtime \<Rightarrow> string \<Rightarrow> bool" where
  "date_after rt s = (case parseDate rt s of None \<Rightarrow> False | Some t \<Rightarrow> t > now rt)"

section \<open>BlockzaAPIClient\<close>

record CompanyParams =
  limit :: "int option"
  category :: "string option"
  search :: "string option"
  verified :: "bool option"

record EventParams =
  limit :: "int option"
  category :: "string option"
  search :: "string option"
  country :: "string option"
  city :: "string option"
  upcoming :: "bool option"

definition baseUrl :: string where
  "baseUrl = ''https://api.blockza.io/api/directory''"

definition eventsUrl :: string where
  "eventsUrl = ''https://api.blockza.io/api/events''"

definition no_company_params :: CompanyParams where
  "no_company_params = \<lparr>CompanyParams.limit = None, CompanyParams.category = None,
     CompanyParams.search = None, CompanyParams.verified = None\<rparr>"

definition no_event_params :: EventParams where
  "no_event_params = \<lparr>EventParams.limit = None, EventParams.category = None,
     EventParams.search = None, EventParams.country = None, EventParams.city = None,
     EventParams.upcoming = None\<rparr>"

text \<open>
  The guards of the query parameters: \<open>if (params?.limit)\<close> is a truthiness test (absent
  and 0 are falsy, absent and the empty string are falsy), \<open>!== undefined\<close> tests presence.
\<close>

definition set_if_number :: "string \<Rightarrow> int option \<Rightarrow> request \<Rightarrow> request" where
  "set_if_number k v r = (case v of None \<Rightarrow> r
     | Some n \<Rightarrow> if n \<noteq> 0 then searchParams_set k (number_toString n) r else r)"

definition set_if_string :: "string \<Rightarrow> string option \<Rightarrow> request \<Rightarrow> request" where
  "set_if_string k v r = (case v of None \<Rightarrow> r
     | Some s \<Rightarrow> if s \<noteq> [] then searchParams_set k s r else r)"

definition set_if_defined :: "string \<Rightarrow> bool option \<Rightarrow> request \<Rightarrow> request" where
  "set_if_defined k v r = (case v of None \<Rightarrow> r
     | Some b \<Rightarrow> searchParams_set k (boolean_toString b) r)"

definition companies_request :: "CompanyParams \<Rightarrow> request" where
  "companies_request params =
     set_if_defined ''verified'' (CompanyParams.verified params)
       (set_if_string ''search'' (CompanyParams.search params)
         (set_if_string ''category'' (CompanyParams.category params)
           (set_if_number ''limit'' (CompanyParams.limit params)
             \<lparr>endpoint = baseUrl, searchParams = []\<rparr>)))"

definition http_error :: "int \<Rightarrow> string \<Rightarrow> error" where
  "http_error st txt = Error ''Error'' (''HTTP '' @ number_toString st @ '': '' @ txt)"

text \<open>
  getCompanies: the catch block logs and rethrows, so a rejected fetch, a non-2xx status
  and a body that does not parse all reject with their own error; a parsed body is
  returned as it is.
\<close>

definition getCompanies :: "runtime \<Rightarrow> CompanyParams \<Rightarrow> request list
    \<Rightarrow> (error + ApiResponse) \<times> request list" where
  "getCompanies rt params reqs =
     (case fetch (directory rt) (companies_request params) reqs of
        (Rejected e, reqs') \<Rightarrow> (Inl e, reqs')
      | (Resolved st txt body, reqs') \<Rightarrow>
          if \<not> response_ok st then (Inl (http_error st txt), reqs')
          else (body, reqs'))"

definition getCompanyBySlug :: "runtime \<Rightarrow> string \<Rightarrow> request list
    \<Rightarrow> (error + Company option) \<times> request list" where
  "getCompanyBySlug rt sl reqs =
     (case getCompanies rt (no_company_params\<lparr>CompanyParams.search := Some sl\<rparr>) reqs of
        (Inl e, reqs') \<Rightarrow> (Inr None, reqs')
      | (Inr d, reqs') \<Rightarrow>
          if success d \<and> length (data d) > 0 then
            (case find (\<lambda>c. Company.slug c = sl) (data d) of
               Some c \<Rightarrow> (Inr (Some c), reqs')
             | None \<Rightarrow> (case data d of c # _ \<Rightarrow> (Inr (Some c), reqs') | [] \<Rightarrow> (Inr None, reqs')))
          else (Inr None, reqs'))"

definition getCompaniesByCategory :: "runtime \<Rightarrow> string \<Rightarrow> request list
    \<Rightarrow> (error + Company list) \<times> request list" where
  "getCompaniesByCategory rt cat reqs =
     (case getCompanies rt (no_company_params\<lparr>CompanyParams.category := Some cat\<rparr>) reqs of
        (Inl e, reqs') \<Rightarrow> (Inr [], reqs')
      | (Inr d, reqs') \<Rightarrow> (Inr (if success d then data d else []), reqs'))"

definition events_request :: "EventParams \<Rightarrow> request" where
  "events_request params =
     set_if_defined ''upcoming'' (EventParams.upcoming params)
       (set_if_string ''city'' (EventParams.city params)
         (set_if_string ''country'' (EventParams.country params)
           (set_if_string ''search'' (EventParams.search params)
             (set_if_string ''category'' (EventParams.category params)
               (set_if_number ''limit'' (EventParams.limit params)
                 \<lparr>endpoint = eventsUrl, searchParams = []\<rparr>)))))"

definition getEvents :: "runtime \<Rightarrow> EventParams \<Rightarrow> request list
    \<Rightarrow> (error + Event list) \<times> request list" where
  "getEvents rt params reqs =
     (case fetch (events rt) (events_request params) reqs of
        (Rejected e, reqs') \<Rightarrow> (Inl e, reqs')
      | (Resolved st txt body, reqs') \<Rightarrow>
          if \<not> response_ok st then (Inl (http_error st txt), reqs')
          else (case body of
                  Inl e \<Rightarrow> (Inl e, reqs')
                | Inr (JsonArray evs) \<Rightarrow> (Inr evs, reqs')
                | Inr JsonOther \<Rightarrow> (Inr [], reqs')))"

definition getEventById :: "runtime \<Rightarrow> string \<Rightarrow> request list
    \<Rightarrow> (error + Event option) \<times> request list" where
  "getEventById rt i reqs =
     (case getEvents rt no_event_params reqs of
        (Inl e, reqs') \<Rightarrow> (Inr None, reqs')
      | (Inr evs, reqs') \<Rightarrow> (Inr (find (\<lambda>event. Event.id' event = i) evs), reqs'))"

definition getEventsByCategory :: "runtime \<Rightarrow> string \<Rightarrow> request list
    \<Rightarrow> (error + Event list) \<times> request list" where
  "getEventsByCategory rt cat reqs =
     (case getEvents rt (no_event_params\<lparr>EventParams.category := Some cat\<rparr>) reqs of
        (Inl e, reqs') \<Rightarrow> (Inr [], reqs')
      | (Inr evs, reqs') \<Rightarrow> (Inr evs, reqs'))"

definition getUpcomingEvents :: "runtime \<Rightarrow> request list
    \<Rightarrow> (error + Event list) \<times> request list" where
  "getUpcomingEvents rt reqs =
     (case getEvents rt no_event_params reqs of
        (Inl e, reqs') \<Rightarrow> (Inr [], reqs')
      | (Inr evs, reqs') \<Rightarrow>
          (Inr (filter (\<lambda>event. date_after rt (eventStartDate event)) evs), reqs'))"

definition getEventsByLocation :: "runtime \<Rightarrow> string option \<Rightarrow> string option \<Rightarrow> request list
    \<Rightarrow> (error + Event list) \<times> request list" where
  "getEventsByLocation rt ctry cty reqs =
     (case getEvents rt (no_event_params\<lparr>EventParams.country := ctry, EventParams.city := cty\<rparr>) reqs of
        (Inl e, reqs') \<Rightarrow> (Inr [], reqs')
      | (Inr evs, reqs') \<Rightarrow> (Inr evs, reqs'))"

section \<open>Call handlers\<close>

text \<open>
  A tool result is the text of its single content item and the error flag (absent in the
  source when the call succeeds); a resource result is the URI, the text and the MIME
  type; a prompt result is the text of its single user message.
\<close>

record ToolResult =
  content :: "segment list"
  isError :: bool


datatype PromptResult = UserMessage "segment list"

definition tool_text :: "segment list \<Rightarrow> ToolResult" where
  "tool_text t = \<lparr>content = t, isError = False\<rparr>"

definition tool_error :: "string \<Rightarrow> ToolResult" where
  "tool_error m = \<lparr>content = [Lit m], isError = True\<rparr>"

definition dquote :: string where
  "dquote = [CHR 0x22]"

text \<open>Truthiness of an optional string argument, and its interpolation in a template.\<close>

definition truthy :: "string option \<Rightarrow> bool" where
  "truthy v = (case v of None \<Rightarrow> False | Some s \<Rightarrow> s \<noteq> [])"

definition interpolate :: "string option \<Rightarrow> string" where
  "interpolate v = (case v of None \<Rightarrow> ''undefined'' | Some s \<Rightarrow> s)"

text \<open>\<open>x || 0\<close> on a number.\<close>

definition or_zero :: "int \<Rightarrow> int" where
  "or_zero x = (if x = 0 then 0 else x)"

text \<open>\<open>limit ? xs.slice(0, limit) : xs\<close> on an optional number.\<close>

definition apply_limit :: "int option \<Rightarrow> 'a list \<Rightarrow> 'a list" where
  "apply_limit lmt xs = (case lmt of None \<Rightarrow> xs | Some n \<Rightarrow> if n \<noteq> 0 then slice0 xs n else xs)"



subsection \<open>Serialised shapes\<close>

definition SocialLinks_json :: "SocialLinks \<Rightarrow> json" where
  "SocialLinks_json l = JObj [(''facebook'', JStr (facebook l)), (''linkedin'', JStr (SocialLinks.linkedin l)),
     (''telegram'', JStr (SocialLinks.telegram l)), (''twitter'', JStr (SocialLinks.twitter l)),
     (''youtube'', JStr (youtube l))]"

definition PromotionSettings_json :: "PromotionSettings \<Rightarrow> json" where
  "PromotionSettings_json p = JObj [(''hasAffiliateProgram'', JBool (hasAffiliateProgram p)),
     (''interestedInBusinessPartnership'', JBool (interestedInBusinessPartnership p))]"

definition TeamMember_json :: "TeamMember \<Rightarrow> json" where
  "TeamMember_json m = JObj [(''_id'', JStr (TeamMember.id' m)), (''name'', JStr (TeamMember.name m)),
     (''title'', JStr (TeamMember.title m)), (''email'', JStr (email m)), (''image'', JStr (image' m)),
     (''linkedinUrl'', JStr (linkedinUrl m)), (''price'', JNum (price m)),
     (''bookingMethods'', JArr (map JStr (bookingMethods m))), (''status'', JStr (status m)),
     (''followers'', JNum (followers m)), (''responseRate'', JNum (responseRate m))]"

definition EventSocialLinks_json :: "EventSocialLinks \<Rightarrow> json" where
  "EventSocialLinks_json l = JObj [(''linkedin'', JStr (EventSocialLinks.linkedin l)),
     (''telegram'', JStr (EventSocialLinks.telegram l)), (''twitter'', JStr (EventSocialLinks.twitter l)),
     (''instagram'', JStr (instagram l))]"

definition company_summary :: "Company \<Rightarrow> json" where
  "company_summary c = JObj [(''_id'', JStr (Company.id' c)), (''name'', JStr (Company.name c)),
     (''slug'', JStr (slug c)), (''category'', JStr (Company.category c)),
     (''shortDescription'', JStr (shortDescription c)), (''logo'', JStr (logo c)),
     (''banner'', JStr (banner c)), (''founderName'', JStr (founderName c)),
     (''verificationStatus'', JStr (verificationStatus c)), (''url'', JStr (url c)),
     (''likes'', JNum (likes c)), (''views'', JNum (views c))]"

definition company_details :: "Company \<Rightarrow> bool \<Rightarrow> json" where
  "company_details c include_team = JObj (
     [(''basic_info'', JObj [(''name'', JStr (Company.name c)), (''slug'', JStr (slug c)),
        (''category'', JStr (Company.category c)), (''shortDescription'', JStr (shortDescription c)),
        (''detail'', JStr (detail c)), (''logo'', JStr (logo c)), (''banner'', JStr (banner c)),
        (''url'', JStr (url c)), (''verificationStatus'', JStr (verificationStatus c))]),
      (''founder'', JObj [(''name'', JStr (founderName c)), (''details'', JStr (founderDetails c)),
        (''email'', JStr (founderEmail c)), (''image'', JStr (founderImage c)),
        (''followers'', JNum (founderFollowers c)), (''responseRate'', JNum (founderResponseRate c))]),
      (''social_links'', SocialLinks_json (Company.socialLinks c)),
      (''promotion_settings'', PromotionSettings_json (promotionSettings c)),
      (''stats'', JObj [(''likes'', JNum (likes c)), (''views'', JNum (views c)),
        (''followerPrice'', JNum (followerPrice c))])]
     @ (if include_team then [(''team_members'', JArr (map TeamMember_json (teamMembers c)))] else []))"

definition event_location :: "Event \<Rightarrow> string" where
  "event_location e = Event.city e @ '', '' @ Event.country e"

definition event_details :: "Event \<Rightarrow> json" where
  "event_details e = JObj
     [(''basic_info'', JObj [(''id'', JStr (Event.id' e)), (''title'', JStr (Event.title e)),
        (''company'', JStr (company e)), (''category'', JStr (Event.category e)),
        (''description'', JStr (description e))]),
      (''location'', JObj [(''venue'', JStr (location e)), (''city'', JStr (Event.city e)),
        (''country'', JStr (Event.country e))]),
      (''dates'', JObj [(''start'', JStr (eventStartDate e)), (''end'', JStr (eventEndDate e))]),
      (''links'', JObj [(''website'', JStr (website e)), (''featuredImage'', JStr (featuredImage e))]),
      (''social_links'', EventSocialLinks_json (Event.socialLinks e)),
      (''metadata'', JObj [(''createdAt'', JStr (Event.createdAt e)), (''updatedAt'', JStr (Event.updatedAt e))])]"

definition event_summary :: "Event \<Rightarrow> json" where
  "event_summary e = JObj [(''id'', JStr (Event.id' e)), (''title'', JStr (Event.title e)),
     (''company'', JStr (company e)), (''category'', JStr (Event.category e)),
     (''location'', JStr (event_location e)), (''eventStartDate'', JStr (eventStartDate e)),
     (''eventEndDate'', JStr (eventEndDate e)), (''website'', JStr (website e))]"

definition event_summary_by_category :: "Event \<Rightarrow> json" where
  "event_summary_by_category e = JObj [(''id'', JStr (Event.id' e)), (''title'', JStr (Event.title e)),
     (''company'', JStr (company e)), (''location'', JStr (event_location e)),
     (''eventStartDate'', JStr (eventStartDate e)), (''eventEndDate'', JStr (eventEndDate e)),
     (''website'', JStr (website e))]"

definition company_data :: "Company \<Rightarrow> json" where
  "company_data c = JObj [(''name'', JStr (Company.name c)), (''description'', JStr (shortDescription c)),
     (''founder'', JStr (founderName c)), (''verification'', JStr (verificationStatus c)),
     (''engagement'', JObj [(''likes'', JNum (likes c)), (''views'', JNum (views c))]),
     (''hasAffiliateProgram'', JBool (hasAffiliateProgram (promotionSettings c))),
     (''teamSize'', JNum (or_zero (int (length (teamMembers c))))), (''url'', JStr (url c))]"

subsection \<open>Resources\<close>





subsection \<open>Tools\<close>

text \<open>
  The detail tools. \<open>include_team\<close> defaults to false; the handlers keep their catch
  branch, although the client lookups reject in no case.
\<close>

definition get_company_details :: "runtime \<Rightarrow> string \<Rightarrow> bool option \<Rightarrow> request list
    \<Rightarrow> ToolResult \<times> request list" where
  "get_company_details rt identifier include_team reqs =
     (case getCompanyBySlug rt identifier reqs of
        (Inl e, reqs') \<Rightarrow> (tool_error (''Error getting company details: '' @ error_toString e), reqs')
      | (Inr None, reqs') \<Rightarrow> (tool_error (''Company not found: '' @ identifier), reqs')
      | (Inr (Some c), reqs') \<Rightarrow>
          (tool_text [Json (company_details c (case include_team of None \<Rightarrow> False | Some b \<Rightarrow> b))], reqs'))"

definition get_event_details :: "runtime \<Rightarrow> string \<Rightarrow> request list \<Rightarrow> ToolResult \<times> request list" where
  "get_event_details rt event_id reqs =
     (case getEventById rt event_id reqs of
        (Inl e, reqs') \<Rightarrow> (tool_error (''Error getting event details: '' @ error_toString e), reqs')
      | (Inr None, reqs') \<Rightarrow> (tool_error (''Event not found: '' @ event_id), reqs')
      | (Inr (Some ev), reqs') \<Rightarrow> (tool_text [Json (event_details ev)], reqs'))"

text \<open>
  The text of the listing tools: the delimited JSON block of the summaries, then the
  sentence with their number (\<open>results.length\<close>, which is the number of summaries).
\<close>

definition companies_text :: "json list \<Rightarrow> string \<Rightarrow> segment list" where
  "companies_text summary tail =
     [Lit ''COMPANIES_DATA_START\<newline>'', Json (JArr summary),
      Lit (''\<newline>COMPANIES_DATA_END\<newline>\<newline>Found '' @ number_toString (int (length summary)) @ tail)]"

definition events_text :: "json list \<Rightarrow> string \<Rightarrow> segment list" where
  "events_text summary tail =
     [Lit ''EVENTS_DATA_START\<newline>'', Json (JArr summary),
      Lit (''\<newline>EVENTS_DATA_END\<newline>\<newline>Found '' @ number_toString (int (length summary)) @ tail)]"

definition get_companies_by_category :: "runtime \<Rightarrow> string \<Rightarrow> int option \<Rightarrow> request list
    \<Rightarrow> ToolResult \<times> request list" where
  "get_companies_by_category rt cat lmt reqs =
     (case getCompaniesByCategory rt cat reqs of
        (Inl e, reqs') \<Rightarrow> (tool_error (''Error getting companies by category: '' @ error_toString e), reqs')
      | (Inr companies, reqs') \<Rightarrow>
          (tool_text (companies_text (map company_summary (apply_limit lmt companies))
             ('' companies in category '' @ dquote @ cat @ dquote @ ''.'')), reqs'))"

text \<open>
  The file src/index.ts holds an earlier shape of the same tool: fewer fields in a
  summary, and the sentence with the number of results before the JSON block.
\<close>

definition company_summary_index :: "Company \<Rightarrow> json" where
  "company_summary_index c = JObj [(''name'', JStr (Company.name c)), (''slug'', JStr (slug c)),
     (''shortDescription'', JStr (shortDescription c)), (''founderName'', JStr (founderName c)),
     (''verificationStatus'', JStr (verificationStatus c)), (''url'', JStr (url c)),
     (''likes'', JNum (likes c)), (''views'', JNum (views c))]"

definition get_companies_by_category_index :: "runtime \<Rightarrow> string \<Rightarrow> int option \<Rightarrow> request list
    \<Rightarrow> ToolResult \<times> request list" where
  "get_companies_by_category_index rt cat lmt reqs =
     (case getCompaniesByCategory rt cat reqs of
        (Inl e, reqs') \<Rightarrow> (tool_error (''Error getting companies by category: '' @ error_toString e), reqs')
      | (Inr companies, reqs') \<Rightarrow>
          (let results = apply_limit lmt companies
           in (tool_text [Lit (''Found '' @ number_toString (int (length results))
                    @ '' companies in category '' @ dquote @ cat @ dquote @ '':\<newline>\<newline>''),
                  Json (JArr (map company_summary_index results))], reqs')))"

definition get_events_by_category :: "runtime \<Rightarrow> string \<Rightarrow> int option \<Rightarrow> request list
    \<Rightarrow> ToolResult \<times> request list" where
  "get_events_by_category rt cat lmt reqs =
     (case getEventsByCategory rt cat reqs of
        (Inl e, reqs') \<Rightarrow> (tool_error (''Error getting events by category: '' @ error_toString e), reqs')
      | (Inr evs, reqs') \<Rightarrow>
          (tool_text (events_text (map event_summary_by_category (apply_limit lmt evs))
             ('' events in category '' @ dquote @ cat @ dquote @ ''.'')), reqs'))"

definition get_upcoming_events :: "runtime \<Rightarrow> int option \<Rightarrow> request list \<Rightarrow> ToolResult \<times> request list" where
  "get_upcoming_events rt lmt reqs =
     (case getUpcomingEvents rt reqs of
        (Inl e, reqs') \<Rightarrow> (tool_error (''Error getting upcoming events: '' @ error_toString e), reqs')
      | (Inr evs, reqs') \<Rightarrow>
          (tool_text (events_text (map event_summary (apply_limit lmt evs)) '' upcoming events.''), reqs'))"

definition get_events_by_location :: "runtime \<Rightarrow> string option \<Rightarrow> string option \<Rightarrow> int option
    \<Rightarrow> request list \<Rightarrow> ToolResult \<times> request list" where
  "get_events_by_location rt ctry cty lmt reqs =
     (if \<not> truthy ctry \<and> \<not> truthy cty
      then (tool_error ''Please provide either a country or city parameter'', reqs)
      else (case getEventsByLocation rt ctry cty reqs of
              (Inl e, reqs') \<Rightarrow> (tool_error (''Error getting events by location: '' @ error_toString e), reqs')
            | (Inr evs, reqs') \<Rightarrow>
                (tool_text (events_text (map event_summary (apply_limit lmt evs))
                   ('' events in '' @ (if truthy cty then interpolate cty @ '', '' @ interpolate ctry
                                       else interpolate ctry) @ ''.'')), reqs')))"






subsection \<open>Prompts\<close>

text \<open>\<open>xs.slice(0, n)\<close> where \<open>n\<close> may be NaN, which slices to nothing.\<close>

definition slice0_number :: "'a list \<Rightarrow> int option \<Rightarrow> 'a list" where
  "slice0_number xs n = (case n of None \<Rightarrow> [] | Some k \<Rightarrow> slice0 xs k)"

text \<open>
  compare_companies: the comparator of the sort, the count \<open>numLimit\<close> (the parameter
  defaults to the string 5, and an empty string counts as 5 too), the two messages.
\<close>

definition engagement_compare :: "Company \<Rightarrow> Company \<Rightarrow> int" where
  "engagement_compare a b = (views b + likes b) - (views a + likes a)"

definition numLimit :: "string option \<Rightarrow> int option" where
  "numLimit lmt = (let l = (case lmt of None \<Rightarrow> ''5'' | Some s \<Rightarrow> s)
                   in if l \<noteq> [] then parseInt10 l else Some 5)"

definition comparison_request :: string where
  "comparison_request = ''\<newline>\<newline>Please provide a detailed comparison covering:\<newline>1. Market positioning and unique value propositions\<newline>2. Founder backgrounds and leadership styles\<newline>3. User engagement and community presence\<newline>4. Business model differences\<newline>5. Partnership and growth opportunities\<newline>6. Competitive advantages and weaknesses\<newline>7. Recommendations for each company's improvement areas\<newline>\<newline>Rank them by overall potential and explain your reasoning.''"

definition comparison_message :: "string \<Rightarrow> Company list \<Rightarrow> PromptResult" where
  "comparison_message cat topCompanies = UserMessage
     [Lit (''Please compare the following '' @ number_toString (int (length topCompanies))
           @ '' companies in the '' @ dquote @ cat @ dquote @ '' category:\<newline>\<newline>''),
      Json (JArr (map company_data topCompanies)),
      Lit comparison_request]"

definition no_companies_message :: "string \<Rightarrow> PromptResult" where
  "no_companies_message cat = UserMessage
     [Lit (''No companies found in category '' @ dquote @ cat @ dquote
           @ ''. Please suggest how to find companies in this category or recommend similar categories.'')]"

text \<open>The prompt handler has no try block: a rejection of the client would propagate.\<close>

definition compare_companies :: "runtime \<Rightarrow> string option \<Rightarrow> string option \<Rightarrow> request list
    \<Rightarrow> (error + PromptResult) \<times> request list" where
  "compare_companies rt cat lmt reqs =
     (if \<not> truthy cat
      then (Inr (UserMessage [Lit ''Please provide a category to compare companies within.'']), reqs)
      else (case getCompaniesByCategory rt (interpolate cat) reqs of
              (Inl e, reqs') \<Rightarrow> (Inl e, reqs')
            | (Inr companies, reqs') \<Rightarrow>
                (let topCompanies = slice0_number (array_sort engagement_compare companies) (numLimit lmt)
                 in if length topCompanies = 0 then (Inr (no_companies_message (interpolate cat)), reqs')
                    else (Inr (comparison_message (interpolate cat) topCompanies), reqs'))))"

section \<open>Upstream outcomes and fixtures\<close>

text \<open>
  The error a list call is given by the upstream, if any: a rejected fetch, a status outside
  200..299, or a body that does not parse as JSON.
\<close>

definition upstream_failure :: "'b fetch_result \<Rightarrow> error option" where
  "upstream_failure r =
     (case r of
        Rejected e \<Rightarrow> Some e
      | Resolved st txt body \<Rightarrow>
          if \<not> response_ok st then Some (http_error st txt)
          else (case body of Inl e \<Rightarrow> Some e | Inr b \<Rightarrow> None))"


text \<open>
  Fixtures for concrete runs: a company and an event with the given fields and every
  other field empty, and a runtime whose endpoints answer every request alike, whose
  clock reads 1000 and whose dates are written as decimal milliseconds.
\<close>

definition fixture_company :: "string \<Rightarrow> string \<Rightarrow> int \<Rightarrow> int \<Rightarrow> Company" where
  "fixture_company s c l v =
     \<lparr>Company.id' = s, Company.name = s, slug = s, shortDescription = [], detail = [],
      Company.category = c, logo = [], banner = [], founderName = [], founderDetails = [],
      founderEmail = [], founderImage = [], verificationStatus = ''verified'', url = [],
      isPromoted = False, likes = l, views = v,
      Company.socialLinks = \<lparr>facebook = [], SocialLinks.linkedin = [], SocialLinks.telegram = [],
        SocialLinks.twitter = [], youtube = []\<rparr>,
      promotionSettings = \<lparr>hasAffiliateProgram = False, interestedInBusinessPartnership = False\<rparr>,
      teamMembers = [], Company.createdAt = [], Company.updatedAt = [], followerPrice = 0,
      founderFollowers = 0, founderResponseRate = 0\<rparr>"

definition fixture_event :: "string \<Rightarrow> string \<Rightarrow> string \<Rightarrow> string \<Rightarrow> string \<Rightarrow> Event" where
  "fixture_event i c ctry cty start =
     \<lparr>Event.id' = i, Event.title = i, company = ''Acme'', description = [], location = [],
      Event.country = ctry, Event.city = cty, eventStartDate = start, eventEndDate = start,
      Event.category = c, website = [], featuredImage = [],
      Event.socialLinks = \<lparr>EventSocialLinks.linkedin = [], EventSocialLinks.telegram = [],
        EventSocialLinks.twitter = [], instagram = []\<rparr>,
      Event.createdAt = [], Event.updatedAt = [], v' = 0\<rparr>"

definition fixture_parseDate :: "string \<Rightarrow> int option" where
  "fixture_parseDate s = (if s \<noteq> [] \<and> list_all isDigit s then Some (int (digits_value s)) else None)"

definition fixture_runtime :: "ApiResponse fetch_result \<Rightarrow> events_json fetch_result \<Rightarrow> runtime" where
  "fixture_runtime d e = \<lparr>directory = (\<lambda>reqs r. d), events = (\<lambda>reqs r. e), now = 1000,
     parseDate = fixture_parseDate, toFixed2 = (\<lambda>x. ''0.00'')\<rparr>"

definition network_down :: "'b fetch_result" where
  "network_down = Rejected (Error ''TypeError'' ''fetch failed'')"

definition ok_companies :: "Company list \<Rightarrow> ApiResponse fetch_result" where
  "ok_companies cs = Resolved 200 ''OK'' (Inr \<lparr>success = True, data = cs\<rparr>)"

definition ok_events :: "Event list \<Rightarrow> events_json fetch_result" where
  "ok_events evs = Resolved 200 ''OK'' (Inr (JsonArray evs))"

text \<open>
  A runtime whose endpoints answer the first request of a run differently from the later
  ones: the directory with status 503 and then with an envelope without success, the
  events endpoint with a body that does not parse and then with a JSON object.
\<close>

definition fixture_flaky_runtime :: runtime where
  "fixture_flaky_runtime =
     \<lparr>directory = (\<lambda>reqs r. if reqs = [] then Resolved 503 ''Service Unavailable'' (Inr \<lparr>success = False, data = []\<rparr>)
                                else Resolved 200 ''OK'' (Inr \<lparr>success = False, data = []\<rparr>)),
      events = (\<lambda>reqs r. if reqs = [] then Resolved 200 ''OK'' (Inl (Error ''SyntaxError'' ''Unexpected end of JSON input''))
                             else Resolved 200 ''OK'' (Inr JsonOther)),
      now = 1000, parseDate = fixture_parseDate, toFixed2 = (\<lambda>x. ''0.00'')\<rparr>"


text \<open>
  A list call that the upstream fails: the fetch is rejected, the status is outside
  200..299, or the body does not parse as JSON.
\<close>

abbreviation call_failed :: "'b fetch_result \<Rightarrow> bool" where
  "call_failed r \<equiv> (\<exists>e. r = Rejected e)
     \<or> (\<exists>st txt b. r = Resolved st txt b \<and> (st < 200 \<or> 299 < st))
     \<or> (\<exists>st txt e. r = Resolved st txt (Inl e))"

section \<open>Properties of the client\<close>

text \<open>
  What the two list calls return for each outcome of the upstream, and the request
  they append to the log.
\<close>

lemma getCompanies_failure:
  "upstream_failure (directory rt reqs (companies_request p)) = Some e
   \<Longrightarrow> getCompanies rt p reqs = (Inl e, reqs @ [companies_request p])"
  by (auto simp add: upstream_failure_def getCompanies_def fetch_def
      split: fetch_result.splits if_splits sum.splits)

lemma getCompanies_parsed:
  "directory rt reqs (companies_request p) = Resolved st txt (Inr d) \<Longrightarrow> response_ok st
   \<Longrightarrow> getCompanies rt p reqs = (Inr d, reqs @ [companies_request p])"
  by (simp add: getCompanies_def fetch_def)

lemma getEvents_failure:
  "upstream_failure (events rt reqs (events_request p)) = Some e
   \<Longrightarrow> getEvents rt p reqs = (Inl e, reqs @ [events_request p])"
  by (auto simp add: upstream_failure_def getEvents_def fetch_def
      split: fetch_result.splits if_splits sum.splits)

lemma getEvents_array:
  "events rt reqs (events_request p) = Resolved st txt (Inr (JsonArray evs)) \<Longrightarrow> response_ok st
   \<Longrightarrow> getEvents rt p reqs = (Inr evs, reqs @ [events_request p])"
  by (simp add: getEvents_def fetch_def)

lemma getEvents_non_array:
  "events rt reqs (events_request p) = Resolved st txt (Inr JsonOther) \<Longrightarrow> response_ok st
   \<Longrightarrow> getEvents rt p reqs = (Inr [], reqs @ [events_request p])"
  by (simp add: getEvents_def fetch_def)

lemma response_ok_200: "response_ok 200"
  by (simp add: response_ok_def)

lemma http_error_503: "http_error 503 ''Service Unavailable'' = Error ''Error'' ''HTTP 503: Service Unavailable''"
  by (simp add: http_error_def number_toString_def string_of_nat.simps digit_char_def)

subsection \<open>Lookup of a company by slug\<close>

lemma find_slug_Some:
  "\<exists>c\<in>set cs. slug c = sl \<Longrightarrow> \<exists>c\<in>set cs. find (\<lambda>c. Company.slug c = sl) cs = Some c \<and> slug c = sl"
  by (induction cs) auto

lemma find_slug_None:
  "\<forall>c\<in>set cs. slug c \<noteq> sl \<Longrightarrow> find (\<lambda>c. Company.slug c = sl) cs = None"
  by (induction cs) auto

lemma fixture_slug: "slug (fixture_company s c l v) = s"
  by (simp add: fixture_company_def)

text \<open>
  The requests of the lookups, written out, and the list calls they answer.
\<close>

lemma slug_search_request:
  "companies_request (no_company_params\<lparr>CompanyParams.search := Some sl\<rparr>)
     = \<lparr>endpoint = ''https://api.blockza.io/api/directory'',
        searchParams = (if sl = [] then [] else [(''search'', sl)])\<rparr>"
  by (simp add: companies_request_def no_company_params_def set_if_number_def set_if_string_def
      set_if_defined_def searchParams_set_def baseUrl_def)

lemma all_events_request:
  "events_request no_event_params = \<lparr>endpoint = ''https://api.blockza.io/api/events'', searchParams = []\<rparr>"
  by (simp add: events_request_def no_event_params_def set_if_number_def set_if_string_def
      set_if_defined_def eventsUrl_def)

lemma call_failed_upstream_failure:
  "call_failed r \<Longrightarrow> \<exists>e. upstream_failure r = Some e"
  by (auto simp add: upstream_failure_def response_ok_def split: sum.splits)

lemma getCompanies_by_slug:
  assumes "directory rt reqs \<lparr>endpoint = ''https://api.blockza.io/api/directory'',
                   searchParams = (if sl = [] then [] else [(''search'', sl)])\<rparr>
             = Resolved st txt (Inr d)"
    and "200 \<le> st \<and> st \<le> 299"
  shows "getCompanies rt (no_company_params\<lparr>CompanyParams.search := Some sl\<rparr>) reqs
           = (Inr d, reqs @ [\<lparr>endpoint = ''https://api.blockza.io/api/directory'',
                      searchParams = (if sl = [] then [] else [(''search'', sl)])\<rparr>])"
proof -
  let ?p = "no_company_params\<lparr>CompanyParams.search := Some sl\<rparr>"
  have "directory rt reqs (companies_request ?p) = Resolved st txt (Inr d)"
    using assms(1) by (simp only: slug_search_request)
  moreover have "response_ok st" using assms(2) by (simp add: response_ok_def)
  ultimately have "getCompanies rt ?p reqs = (Inr d, reqs @ [companies_request ?p])"
    by (rule getCompanies_parsed)
  then show ?thesis by (simp only: slug_search_request)
qed

lemma getEvents_all_array:
  assumes "events rt reqs \<lparr>endpoint = ''https://api.blockza.io/api/events'', searchParams = []\<rparr>
             = Resolved st txt (Inr (JsonArray evs))"
    and "200 \<le> st \<and> st \<le> 299"
  shows "getEvents rt no_event_params reqs
           = (Inr evs, reqs @ [\<lparr>endpoint = ''https://api.blockza.io/api/events'', searchParams = []\<rparr>])"
proof -
  have "events rt reqs (events_request no_event_params) = Resolved st txt (Inr (JsonArray evs))"
    using assms(1) by (simp only: all_events_request)
  moreover have "response_ok st" using assms(2) by (simp add: response_ok_def)
  ultimately have "getEvents rt no_event_params reqs = (Inr evs, reqs @ [events_request no_event_params])"
    by (rule getEvents_array)
  then show ?thesis by (simp only: all_events_request)
qed

text \<open>
  C1, as the specification states it, fails for the empty slug: the client sets the
  search parameter only for a non-empty string, so the request carries no parameter, the
  whole directory is listed and its first company is returned.
\<close>

theorem getCompanyBySlug_empty_slug_counterexample:
  "getCompanyBySlug (fixture_runtime (ok_companies [fixture_company ''zeta'' ''DeFi'' 1 2,
        fixture_company ''acme'' ''AI'' 3 4]) network_down) [] []
     = (Inr (Some (fixture_company ''zeta'' ''DeFi'' 1 2)),
        [\<lparr>endpoint = ''https://api.blockza.io/api/directory'', searchParams = []\<rparr>])"
  by (simp add: getCompanyBySlug_def getCompanies_def fetch_def fixture_runtime_def ok_companies_def
      response_ok_def slug_search_request fixture_slug)

text \<open>
  C1, amended. getCompanyBySlug issues one request to the directory endpoint, with the
  single query parameter search set to the slug when the slug is not empty and with no
  query parameter when it is empty. When the answer is a parsed envelope with success,
  it returns a record of the listing whose slug is the input, if the listing has one;
  the first record, if the listing is not empty and has no such record; null (and no
  rejection) if the listing is empty. When the envelope has no success, it returns null.
\<close>

theorem getCompanyBySlug_exact_or_first:
  assumes up: "directory rt reqs \<lparr>endpoint = ''https://api.blockza.io/api/directory'',
                   searchParams = (if sl = [] then [] else [(''search'', sl)])\<rparr>
                 = Resolved st txt (Inr d)"
    and ok: "200 \<le> st \<and> st \<le> 299"
  shows "snd (getCompanyBySlug rt sl reqs)
           = reqs @ [\<lparr>endpoint = ''https://api.blockza.io/api/directory'',
                      searchParams = (if sl = [] then [] else [(''search'', sl)])\<rparr>]
       \<and> (success d \<longrightarrow>
            ((\<exists>c\<in>set (data d). slug c = sl) \<longrightarrow>
               (\<exists>c\<in>set (data d). fst (getCompanyBySlug rt sl reqs) = Inr (Some c) \<and> slug c = sl))
          \<and> (data d \<noteq> [] \<and> (\<forall>c\<in>set (data d). slug c \<noteq> sl) \<longrightarrow>
               fst (getCompanyBySlug rt sl reqs) = Inr (Some (hd (data d))))
          \<and> (data d = [] \<longrightarrow> fst (getCompanyBySlug rt sl reqs) = Inr None))
       \<and> (\<not> success d \<longrightarrow> fst (getCompanyBySlug rt sl reqs) = Inr None)"
proof -
  let ?p = "no_company_params\<lparr>CompanyParams.search := Some sl\<rparr>"
  let ?req = "\<lparr>endpoint = ''https://api.blockza.io/api/directory'',
                searchParams = (if sl = [] then [] else [(''search'', sl)])\<rparr>"
  have gc: "getCompanies rt ?p reqs = (Inr d, reqs @ [?req])"
    using up ok by (rule getCompanies_by_slug)
  have 1: "snd (getCompanyBySlug rt sl reqs) = reqs @ [?req]"
    by (simp add: getCompanyBySlug_def gc split: option.splits list.splits)
  have 2: "\<exists>c\<in>set (data d). fst (getCompanyBySlug rt sl reqs) = Inr (Some c) \<and> slug c = sl"
    if "success d" "\<exists>c\<in>set (data d). slug c = sl"
  proof -
    from find_slug_Some [OF that(2)] obtain c where "c \<in> set (data d)"
      "find (\<lambda>c. Company.slug c = sl) (data d) = Some c" "slug c = sl" by blast
    moreover have "data d \<noteq> []" using that(2) by auto
    ultimately show ?thesis using that(1) by (auto simp add: getCompanyBySlug_def gc)
  qed
  have 3: "fst (getCompanyBySlug rt sl reqs) = Inr (Some (hd (data d)))"
    if "success d" "data d \<noteq> []" "\<forall>c\<in>set (data d). slug c \<noteq> sl"
    using that find_slug_None [OF that(3)]
    by (cases "data d") (simp_all add: getCompanyBySlug_def gc)
  have 4: "fst (getCompanyBySlug rt sl reqs) = Inr None" if "data d = []"
    using that by (simp add: getCompanyBySlug_def gc)
  have 5: "fst (getCompanyBySlug rt sl reqs) = Inr None" if "\<not> success d"
    using that by (simp add: getCompanyBySlug_def gc)
  from 1 2 3 4 5 show ?thesis by blast
qed

text \<open>
  A run of the amended C1: the search for acme answers with two companies, the second
  of which has the slug asked for.
\<close>

theorem getCompanyBySlug_exact_or_first_witness:
  "getCompanyBySlug (fixture_runtime (ok_companies [fixture_company ''acme-labs'' ''AI'' 1 2,
        fixture_company ''acme'' ''AI'' 3 4]) network_down) ''acme'' []
     = (Inr (Some (fixture_company ''acme'' ''AI'' 3 4)),
        [\<lparr>endpoint = ''https://api.blockza.io/api/directory'', searchParams = [(''search'', ''acme'')]\<rparr>])"
proof -
  let ?cs = "[fixture_company ''acme-labs'' ''AI'' 1 2, fixture_company ''acme'' ''AI'' 3 4]"
  let ?rt = "fixture_runtime (ok_companies ?cs) network_down"
  have h1: "directory ?rt [] \<lparr>endpoint = ''https://api.blockza.io/api/directory'',
               searchParams = (if ''acme'' = [] then [] else [(''search'', ''acme'')])\<rparr>
     = Resolved 200 ''OK'' (Inr \<lparr>success = True, data = ?cs\<rparr>)"
    by (simp add: fixture_runtime_def ok_companies_def)
  have h2: "(200::int) \<le> 200 \<and> (200::int) \<le> 299" by simp
  from getCompanyBySlug_exact_or_first [OF h1 h2]
  have s: "snd (getCompanyBySlug ?rt ''acme'' [])
             = [\<lparr>endpoint = ''https://api.blockza.io/api/directory'', searchParams = [(''search'', ''acme'')]\<rparr>]"
    and "\<exists>c\<in>set ?cs. fst (getCompanyBySlug ?rt ''acme'' []) = Inr (Some c) \<and> slug c = ''acme''"
    by (simp_all add: fixture_slug)
  then have "fst (getCompanyBySlug ?rt ''acme'' []) = Inr (Some (fixture_company ''acme'' ''AI'' 3 4))"
    by (auto simp add: fixture_slug)
  with s show ?thesis by (simp add: prod_eq_iff)
qed

subsection \<open>Failures of the list calls\<close>

text \<open>
  C2, as the specification states it, fails: an events body that parses but is not an
  array makes getEvents return the empty list, without any error.
\<close>

theorem getEvents_non_array_counterexample:
  "fst (getEvents (fixture_runtime network_down (Resolved 200 ''OK'' (Inr JsonOther))) no_event_params [])
     = Inr []"
  by (simp add: getEvents_def fetch_def fixture_runtime_def response_ok_def)

text \<open>
  C2, amended. A list call fails with the error of the upstream when the fetch is
  rejected, when the status is outside 200..299 (the error then reads HTTP, the status
  and the status text) and when the body does not parse as JSON. A parsed events body
  that is not an array is returned as the empty list, and getCompanies returns the
  parsed envelope as it is, whatever its success flag.
\<close>

theorem list_call_failures:
  assumes "upstream_failure (directory rt reqs (companies_request cp)) = Some e1"
    and "upstream_failure (events rt reqs (events_request ep)) = Some e2"
    and "events rt reqs' (events_request ep') = Resolved st txt (Inr JsonOther)" and "response_ok st"
    and "directory rt reqs' (companies_request cp') = Resolved st' txt' (Inr d)" and "response_ok st'"
  shows "fst (getCompanies rt cp reqs) = Inl e1
       \<and> fst (getEvents rt ep reqs) = Inl e2
       \<and> fst (getEvents rt ep' reqs') = Inr []
       \<and> fst (getCompanies rt cp' reqs') = Inr d"
  using getCompanies_failure [OF assms(1)] getEvents_failure [OF assms(2)]
    getEvents_non_array [OF assms(3,4)] getCompanies_parsed [OF assms(5,6)]
  by simp

text \<open>
  A run of the amended C2: status 503 and an unparsable body reject, a JSON object is
  an empty list of events, an envelope without success is returned unchanged.
\<close>

theorem list_call_failures_witness:
  "fst (getCompanies fixture_flaky_runtime no_company_params [])
     = Inl (Error ''Error'' ''HTTP 503: Service Unavailable'')
   \<and> fst (getEvents fixture_flaky_runtime no_event_params [])
     = Inl (Error ''SyntaxError'' ''Unexpected end of JSON input'')
   \<and> fst (getEvents fixture_flaky_runtime no_event_params [events_request no_event_params]) = Inr []
   \<and> fst (getCompanies fixture_flaky_runtime no_company_params [events_request no_event_params])
     = Inr \<lparr>success = False, data = []\<rparr>"
proof -
  let ?r = "[events_request no_event_params]"
  have h1: "upstream_failure (directory fixture_flaky_runtime [] (companies_request no_company_params))
              = Some (Error ''Error'' ''HTTP 503: Service Unavailable'')"
    by (simp add: fixture_flaky_runtime_def upstream_failure_def response_ok_def http_error_503)
  have h2: "upstream_failure (events fixture_flaky_runtime [] (events_request no_event_params))
              = Some (Error ''SyntaxError'' ''Unexpected end of JSON input'')"
    by (simp add: fixture_flaky_runtime_def upstream_failure_def response_ok_def)
  have h3: "events fixture_flaky_runtime ?r (events_request no_event_params)
              = Resolved 200 ''OK'' (Inr JsonOther)"
    by (simp add: fixture_flaky_runtime_def)
  have h5: "directory fixture_flaky_runtime ?r (companies_request no_company_params)
              = Resolved 200 ''OK'' (Inr \<lparr>success = False, data = []\<rparr>)"
    by (simp add: fixture_flaky_runtime_def)
  from list_call_failures [OF h1 h2 h3 response_ok_200 h5 response_ok_200]
  show ?thesis .
qed

subsection \<open>Upcoming events\<close>

text \<open>
  C4. When the upstream answers the unfiltered events request with an array, getEvents
  returns that array and getUpcomingEvents returns exactly its events whose start date
  parses to a time strictly after the clock, in the order of the array.
\<close>

theorem getUpcomingEvents_filter:
  assumes "events rt reqs (events_request no_event_params) = Resolved st txt (Inr (JsonArray evs))"
    and "response_ok st"
  shows "fst (getEvents rt no_event_params reqs) = Inr evs
       \<and> (\<exists>ups. fst (getUpcomingEvents rt reqs) = Inr ups
             \<and> ups = filter (\<lambda>e. \<exists>t. parseDate rt (eventStartDate e) = Some t \<and> now rt < t) evs
             \<and> set ups = {e \<in> set evs. \<exists>t. parseDate rt (eventStartDate e) = Some t \<and> now rt < t}
             \<and> subseq ups evs)"
proof -
  have p: "date_after rt s = (\<exists>t. parseDate rt s = Some t \<and> now rt < t)" for s
    by (simp add: date_after_def split: option.splits)
  show ?thesis
    by (simp add: getUpcomingEvents_def getEvents_array [OF assms] p)
qed

text \<open>
  A run of C4 at time 1000: the events starting at 999 and at 1000 and the event with
  an invalid date are dropped, the two later events are kept in the order of the listing.
\<close>

lemma fixture_start: "eventStartDate (fixture_event i c ctry cty start) = start"
  by (simp add: fixture_event_def)

lemma fixture_dates:
  "fixture_parseDate ''999'' = Some 999" "fixture_parseDate ''1000'' = Some 1000"
  "fixture_parseDate ''1001'' = Some 1001" "fixture_parseDate ''2000'' = Some 2000"
  "fixture_parseDate ''soon'' = None"
  by (simp_all add: fixture_parseDate_def isDigit_def digits_value_def)

theorem getUpcomingEvents_filter_witness:
  "fst (getUpcomingEvents (fixture_runtime network_down (ok_events
       [fixture_event ''e1'' ''Meetup'' ''UAE'' ''Dubai'' ''999'',
        fixture_event ''e2'' ''Meetup'' ''UAE'' ''Dubai'' ''2000'',
        fixture_event ''e3'' ''Meetup'' ''UAE'' ''Dubai'' ''1000'',
        fixture_event ''e4'' ''Meetup'' ''UAE'' ''Dubai'' ''soon'',
        fixture_event ''e5'' ''Meetup'' ''UAE'' ''Dubai'' ''1001''])) [])
     = Inr [fixture_event ''e2'' ''Meetup'' ''UAE'' ''Dubai'' ''2000'',
            fixture_event ''e5'' ''Meetup'' ''UAE'' ''Dubai'' ''1001'']"
proof -
  let ?evs = "[fixture_event ''e1'' ''Meetup'' ''UAE'' ''Dubai'' ''999'',
        fixture_event ''e2'' ''Meetup'' ''UAE'' ''Dubai'' ''2000'',
        fixture_event ''e3'' ''Meetup'' ''UAE'' ''Dubai'' ''1000'',
        fixture_event ''e4'' ''Meetup'' ''UAE'' ''Dubai'' ''soon'',
        fixture_event ''e5'' ''Meetup'' ''UAE'' ''Dubai'' ''1001'']"
  let ?rt = "fixture_runtime network_down (ok_events ?evs)"
  have h1: "events ?rt [] (events_request no_event_params) = Resolved 200 ''OK'' (Inr (JsonArray ?evs))"
    by (simp add: fixture_runtime_def ok_events_def)
  have rt: "parseDate ?rt = fixture_parseDate" "now ?rt = 1000"
    by (simp_all add: fixture_runtime_def)
  from getUpcomingEvents_filter [OF h1 response_ok_200]
  have "fst (getUpcomingEvents ?rt [])
          = Inr (filter (\<lambda>e. \<exists>t. parseDate ?rt (eventStartDate e) = Some t \<and> now ?rt < t) ?evs)"
    by blast
  then show ?thesis
    by (simp add: rt fixture_start fixture_dates)
qed

subsection \<open>Companies of a category\<close>



section \<open>Properties of the call handlers\<close>

subsection \<open>Detail tools\<close>

lemma getCompanyBySlug_failure:
  "upstream_failure (directory rt reqs (companies_request (no_company_params\<lparr>CompanyParams.search := Some sl\<rparr>))) = Some e
   \<Longrightarrow> fst (getCompanyBySlug rt sl reqs) = Inr None"
  by (simp add: getCompanyBySlug_def getCompanies_failure)

lemma getEventById_failure:
  "upstream_failure (events rt reqs (events_request no_event_params)) = Some e
   \<Longrightarrow> fst (getEventById rt i reqs) = Inr None"
  by (simp add: getEventById_def getEvents_failure)

lemma find_id_None:
  "\<forall>ev\<in>set evs. Event.id' ev \<noteq> i \<Longrightarrow> find (\<lambda>event. Event.id' event = i) evs = None"
  by (induction evs) auto

lemma company_details_basic_info:
  "\<exists>fields basic. company_details c b = JObj fields
     \<and> map_of fields ''basic_info'' = Some (JObj basic)
     \<and> map_of basic ''name'' = Some (JStr (Company.name c))
     \<and> map_of basic ''slug'' = Some (JStr (slug c))"
  by (simp add: company_details_def)

lemma get_company_details_null:
  "fst (getCompanyBySlug rt sl reqs) = Inr None
   \<Longrightarrow> fst (get_company_details rt sl it reqs)
         = \<lparr>content = [Lit (''Company not found: '' @ sl)], isError = True\<rparr>"
  by (cases "getCompanyBySlug rt sl reqs") (simp add: get_company_details_def tool_error_def)

lemma get_event_details_null:
  "fst (getEventById rt i reqs) = Inr None
   \<Longrightarrow> fst (get_event_details rt i reqs)
         = \<lparr>content = [Lit (''Event not found: '' @ i)], isError = True\<rparr>"
  by (cases "getEventById rt i reqs") (simp add: get_event_details_def tool_error_def)

lemma get_company_details_call_failed:
  assumes "call_failed (directory rt reqs \<lparr>endpoint = ''https://api.blockza.io/api/directory'',
                   searchParams = (if sl = [] then [] else [(''search'', sl)])\<rparr>)"
  shows "fst (get_company_details rt sl it reqs)
           = \<lparr>content = [Lit (''Company not found: '' @ sl)], isError = True\<rparr>"
proof -
  from call_failed_upstream_failure [OF assms] obtain e where
    "upstream_failure (directory rt reqs (companies_request (no_company_params\<lparr>CompanyParams.search := Some sl\<rparr>))) = Some e"
    unfolding slug_search_request by blast
  then have "fst (getCompanyBySlug rt sl reqs) = Inr None" by (rule getCompanyBySlug_failure)
  then show ?thesis by (rule get_company_details_null)
qed

lemma get_event_details_call_failed:
  assumes "call_failed (events rt reqs \<lparr>endpoint = ''https://api.blockza.io/api/events'', searchParams = []\<rparr>)"
  shows "fst (get_event_details rt i reqs)
           = \<lparr>content = [Lit (''Event not found: '' @ i)], isError = True\<rparr>"
proof -
  from call_failed_upstream_failure [OF assms] obtain e where
    "upstream_failure (events rt reqs (events_request no_event_params)) = Some e"
    unfolding all_events_request by blast
  then have "fst (getEventById rt i reqs) = Inr None" by (rule getEventById_failure)
  then show ?thesis by (rule get_event_details_null)
qed

lemma get_company_details_absent:
  assumes "directory rt reqs \<lparr>endpoint = ''https://api.blockza.io/api/directory'',
                   searchParams = (if sl = [] then [] else [(''search'', sl)])\<rparr>
             = Resolved st txt (Inr d)"
    and "200 \<le> st \<and> st \<le> 299" and "\<not> success d \<or> data d = []"
  shows "fst (get_company_details rt sl it reqs)
           = \<lparr>content = [Lit (''Company not found: '' @ sl)], isError = True\<rparr>"
proof -
  have "fst (getCompanyBySlug rt sl reqs) = Inr None"
    using assms(3) by (auto simp add: getCompanyBySlug_def getCompanies_by_slug [OF assms(1,2)])
  then show ?thesis by (rule get_company_details_null)
qed

lemma get_company_details_first:
  assumes "directory rt reqs \<lparr>endpoint = ''https://api.blockza.io/api/directory'',
                   searchParams = (if sl = [] then [] else [(''search'', sl)])\<rparr>
             = Resolved st txt (Inr d)"
    and "200 \<le> st \<and> st \<le> 299" and "success d" and "data d \<noteq> []"
    and "\<forall>c\<in>set (data d). slug c \<noteq> sl"
  shows "fst (get_company_details rt sl it reqs)
           = \<lparr>content = [Json (company_details (hd (data d)) (it = Some True))], isError = False\<rparr>"
proof -
  have "getCompanyBySlug rt sl reqs
          = (Inr (Some (hd (data d))), reqs @ [\<lparr>endpoint = ''https://api.blockza.io/api/directory'',
                   searchParams = (if sl = [] then [] else [(''search'', sl)])\<rparr>])"
    using assms(3,4) find_slug_None [OF assms(5)]
    by (cases "data d") (simp_all add: getCompanyBySlug_def getCompanies_by_slug [OF assms(1,2)])
  then show ?thesis
    by (cases it) (auto simp add: get_company_details_def tool_text_def)
qed

lemma get_event_details_absent:
  assumes "events rt reqs \<lparr>endpoint = ''https://api.blockza.io/api/events'', searchParams = []\<rparr>
             = Resolved st txt (Inr (JsonArray evs))"
    and "200 \<le> st \<and> st \<le> 299" and "\<forall>ev\<in>set evs. Event.id' ev \<noteq> i"
  shows "fst (get_event_details rt i reqs)
           = \<lparr>content = [Lit (''Event not found: '' @ i)], isError = True\<rparr>"
proof -
  have "fst (getEventById rt i reqs) = Inr None"
    by (simp add: getEventById_def getEvents_all_array [OF assms(1,2)] find_id_None [OF assms(3)])
  then show ?thesis by (rule get_event_details_null)
qed

text \<open>
  C3, as the specification states it, fails: when the fetch is rejected the company
  tool answers with the not-found result, in which the message of the upstream error
  does not appear.
\<close>

theorem get_company_details_conflates_counterexample:
  "fst (get_company_details (fixture_runtime network_down network_down) ''acme'' None [])
     = \<lparr>content = [Lit ''Company not found: acme''], isError = True\<rparr>"
  by (simp add: get_company_details_def getCompanyBySlug_def getCompanies_def fetch_def
      fixture_runtime_def network_down_def tool_error_def)

text \<open>
  C3, amended. get_company_details answers with the not-found error result (error flag
  set, the text Company not found and the identifier) when the search is answered with
  an empty listing or with an envelope without success; get_event_details answers with
  its not-found error result when the listing is an array in which no event has the id.
  Both tools answer with that same result when the upstream call fails (rejected fetch,
  status outside 200..299, unparsable body), because the client lookup turns the failure
  into null; the message of the upstream error is not in the text. A company listing
  that is not empty and has no record with the slug is no not-found case: the tool
  answers without error flag, with the details of the first record of the listing.
\<close>

theorem lookup_tools_not_found:
  assumes f1: "call_failed (directory rt reqs \<lparr>endpoint = ''https://api.blockza.io/api/directory'',
                   searchParams = (if sl = [] then [] else [(''search'', sl)])\<rparr>)"
    and f2: "call_failed (events rt reqs \<lparr>endpoint = ''https://api.blockza.io/api/events'', searchParams = []\<rparr>)"
    and a1: "directory rt' reqs \<lparr>endpoint = ''https://api.blockza.io/api/directory'',
                   searchParams = (if sl = [] then [] else [(''search'', sl)])\<rparr>
               = Resolved st txt (Inr d)"
    and a2: "200 \<le> st \<and> st \<le> 299" and a3: "\<not> success d \<or> data d = []"
    and b1: "events rt' reqs \<lparr>endpoint = ''https://api.blockza.io/api/events'', searchParams = []\<rparr>
               = Resolved st' txt' (Inr (JsonArray evs))"
    and b2: "200 \<le> st' \<and> st' \<le> 299" and b3: "\<forall>ev\<in>set evs. Event.id' ev \<noteq> i"
    and c1: "directory rt'' reqs \<lparr>endpoint = ''https://api.blockza.io/api/directory'',
                   searchParams = (if sl = [] then [] else [(''search'', sl)])\<rparr>
               = Resolved st'' txt'' (Inr d')"
    and c2: "200 \<le> st'' \<and> st'' \<le> 299" and c3: "success d'" and c4: "data d' \<noteq> []"
    and c5: "\<forall>c\<in>set (data d'). slug c \<noteq> sl"
  shows "fst (get_company_details rt sl it reqs)
           = \<lparr>content = [Lit (''Company not found: '' @ sl)], isError = True\<rparr>
       \<and> fst (get_company_details rt' sl it reqs)
           = \<lparr>content = [Lit (''Company not found: '' @ sl)], isError = True\<rparr>
       \<and> fst (get_event_details rt i reqs)
           = \<lparr>content = [Lit (''Event not found: '' @ i)], isError = True\<rparr>
       \<and> fst (get_event_details rt' i reqs)
           = \<lparr>content = [Lit (''Event not found: '' @ i)], isError = True\<rparr>
       \<and> (\<exists>fields basic. fst (get_company_details rt'' sl it reqs)
             = \<lparr>content = [Json (JObj fields)], isError = False\<rparr>
           \<and> map_of fields ''basic_info'' = Some (JObj basic)
           \<and> map_of basic ''name'' = Some (JStr (Company.name (hd (data d'))))
           \<and> map_of basic ''slug'' = Some (JStr (slug (hd (data d')))))"
proof -
  from company_details_basic_info [of "hd (data d')" "it = Some True"]
  obtain fields basic where cd: "company_details (hd (data d')) (it = Some True) = JObj fields"
    and bi: "map_of fields ''basic_info'' = Some (JObj basic)"
    and nm: "map_of basic ''name'' = Some (JStr (Company.name (hd (data d'))))"
    and sg: "map_of basic ''slug'' = Some (JStr (slug (hd (data d'))))"
    by blast
  have "fst (get_company_details rt'' sl it reqs) = \<lparr>content = [Json (JObj fields)], isError = False\<rparr>"
    using get_company_details_first [OF c1 c2 c3 c4 c5, of it] by (simp only: cd)
  with bi nm sg have 5: "\<exists>fields basic. fst (get_company_details rt'' sl it reqs)
             = \<lparr>content = [Json (JObj fields)], isError = False\<rparr>
           \<and> map_of fields ''basic_info'' = Some (JObj basic)
           \<and> map_of basic ''name'' = Some (JStr (Company.name (hd (data d'))))
           \<and> map_of basic ''slug'' = Some (JStr (slug (hd (data d'))))"
    by blast
  show ?thesis
    apply (intro conjI)
    apply (rule get_company_details_call_failed [OF f1])
    apply (rule get_company_details_absent [OF a1 a2 a3])
    apply (rule get_event_details_call_failed [OF f2])
    apply (rule get_event_details_absent [OF b1 b2 b3])
    apply (rule 5)
    done
qed

text \<open>
  A run of the amended C3: a network failure and an empty successful answer give the
  same not-found results, and the search for acme answered with the one company
  acme-labs gives the details of acme-labs.
\<close>

theorem lookup_tools_not_found_witness:
  "fst (get_company_details (fixture_runtime network_down network_down) ''acme'' None [])
     = \<lparr>content = [Lit ''Company not found: acme''], isError = True\<rparr>
   \<and> fst (get_company_details (fixture_runtime (ok_companies [])
          (ok_events [fixture_event ''e1'' ''Meetup'' ''UAE'' ''Dubai'' ''2000''])) ''acme'' None [])
     = \<lparr>content = [Lit ''Company not found: acme''], isError = True\<rparr>
   \<and> fst (get_event_details (fixture_runtime network_down network_down) ''e9'' [])
     = \<lparr>content = [Lit ''Event not found: e9''], isError = True\<rparr>
   \<and> fst (get_event_details (fixture_runtime (ok_companies [])
          (ok_events [fixture_event ''e1'' ''Meetup'' ''UAE'' ''Dubai'' ''2000''])) ''e9'' [])
     = \<lparr>content = [Lit ''Event not found: e9''], isError = True\<rparr>
   \<and> (\<exists>fields basic. fst (get_company_details (fixture_runtime
            (ok_companies [fixture_company ''acme-labs'' ''AI'' 1 2]) network_down) ''acme'' None [])
         = \<lparr>content = [Json (JObj fields)], isError = False\<rparr>
       \<and> map_of fields ''basic_info'' = Some (JObj basic)
       \<and> map_of basic ''slug'' = Some (JStr ''acme-labs''))"
proof -
  let ?down = "fixture_runtime network_down network_down"
  let ?evs = "[fixture_event ''e1'' ''Meetup'' ''UAE'' ''Dubai'' ''2000'']"
  let ?up = "fixture_runtime (ok_companies []) (ok_events ?evs)"
  let ?cs = "[fixture_company ''acme-labs'' ''AI'' 1 2]"
  let ?other = "fixture_runtime (ok_companies ?cs) network_down"
  let ?req = "\<lparr>endpoint = ''https://api.blockza.io/api/directory'',
                 searchParams = (if ''acme'' = [] then [] else [(''search'', ''acme'')])\<rparr>"
  let ?ereq = "\<lparr>endpoint = ''https://api.blockza.io/api/events'', searchParams = []\<rparr>"
  have f1: "call_failed (directory ?down [] ?req)"
    by (simp add: fixture_runtime_def network_down_def)
  have f2: "call_failed (events ?down [] ?ereq)"
    by (simp add: fixture_runtime_def network_down_def)
  have a1: "directory ?up [] ?req = Resolved 200 ''OK'' (Inr \<lparr>success = True, data = []\<rparr>)"
    by (simp add: fixture_runtime_def ok_companies_def)
  have ok: "(200::int) \<le> 200 \<and> (200::int) \<le> 299" by simp
  have a3: "\<not> success \<lparr>success = True, data = []\<rparr> \<or> data \<lparr>success = True, data = []\<rparr> = []"
    by simp
  have b1: "events ?up [] ?ereq = Resolved 200 ''OK'' (Inr (JsonArray ?evs))"
    by (simp add: fixture_runtime_def ok_events_def)
  have b3: "\<forall>ev\<in>set ?evs. Event.id' ev \<noteq> ''e9''"
    by (simp add: fixture_event_def)
  have c1: "directory ?other [] ?req = Resolved 200 ''OK'' (Inr \<lparr>success = True, data = ?cs\<rparr>)"
    by (simp add: fixture_runtime_def ok_companies_def)
  have c3: "success \<lparr>success = True, data = ?cs\<rparr>" by simp
  have c4: "data \<lparr>success = True, data = ?cs\<rparr> \<noteq> []" by simp
  have c5: "\<forall>c\<in>set (data \<lparr>success = True, data = ?cs\<rparr>). slug c \<noteq> ''acme''"
    by (simp add: fixture_slug)
  from lookup_tools_not_found [OF f1 f2 a1 ok a3 b1 ok b3 c1 ok c3 c4 c5, of None]
  show ?thesis by (simp add: fixture_slug) blast
qed

subsection \<open>Directory statistics\<close>





subsection \<open>Events by location\<close>

text \<open>
  C6. With neither a country nor a city, get_events_by_location answers with the
  validation error and the log of requests is unchanged: no upstream call is made.
\<close>

theorem get_events_by_location_validation:
  "get_events_by_location rt None None lmt reqs
     = (tool_error ''Please provide either a country or city parameter'', reqs)"
  by (simp add: get_events_by_location_def truthy_def)

subsection \<open>Aggregate sets\<close>










lemma getUpcomingEvents_returns: "\<exists>ups. fst (getUpcomingEvents rt reqs) = Inr ups"
  by (cases "getEvents rt no_event_params reqs")
     (auto simp add: getUpcomingEvents_def split: sum.splits)




subsection \<open>The comparison prompt\<close>

lemma insort_cmp_engagement:
  "insort_cmp engagement_compare x ys = insort_key (\<lambda>c. - (views c + likes c)) x ys"
  by (induction ys) (simp_all add: engagement_compare_def)

lemma array_sort_engagement:
  "array_sort engagement_compare xs = sort_key (\<lambda>c. - (views c + likes c)) xs"
proof -
  have "insort_cmp engagement_compare = insort_key (\<lambda>c. - (views c + likes c))"
    by (intro ext) (rule insort_cmp_engagement)
  then show ?thesis by (simp add: array_sort_def sort_key_def)
qed

lemma array_sort_ranked:
  "mset (array_sort engagement_compare xs) = mset xs
   \<and> sorted_wrt (\<lambda>a b. views a + likes a \<ge> views b + likes b) (array_sort engagement_compare xs)"
proof -
  have "sorted (map (\<lambda>c. - (views c + likes c)) (sort_key (\<lambda>c. - (views c + likes c)) xs))"
    by (rule sorted_sort_key)
  then have "sorted_wrt (\<lambda>a b. - (views a + likes a) \<le> - (views b + likes b))
      (sort_key (\<lambda>c. - (views c + likes c)) xs)"
    unfolding sorted_map .
  then have "sorted_wrt (\<lambda>a b. views a + likes a \<ge> views b + likes b) (sort_key (\<lambda>c. - (views c + likes c)) xs)"
    by (rule sorted_wrt_mono_rel [rotated]) simp
  then show ?thesis by (simp add: array_sort_engagement)
qed

lemma numLimit_default: "numLimit None = Some 5"
  by (simp add: numLimit_def parseInt10_def isWhiteSpace_def isDigit_def digits_value_def)

lemma category_request:
  "companies_request (no_company_params\<lparr>CompanyParams.category := Some c\<rparr>)
     = \<lparr>endpoint = ''https://api.blockza.io/api/directory'',
        searchParams = (if c = [] then [] else [(''category'', c)])\<rparr>"
  by (simp add: companies_request_def no_company_params_def set_if_number_def set_if_string_def
      set_if_defined_def searchParams_set_def baseUrl_def)

lemma getCompaniesByCategory_listing:
  assumes "directory rt reqs \<lparr>endpoint = ''https://api.blockza.io/api/directory'',
                   searchParams = (if c = [] then [] else [(''category'', c)])\<rparr>
             = Resolved st txt (Inr d)"
    and "200 \<le> st \<and> st \<le> 299" and "success d"
  shows "getCompaniesByCategory rt c reqs
           = (Inr (data d), reqs @ [\<lparr>endpoint = ''https://api.blockza.io/api/directory'',
                   searchParams = (if c = [] then [] else [(''category'', c)])\<rparr>])"
proof -
  let ?p = "no_company_params\<lparr>CompanyParams.category := Some c\<rparr>"
  have "directory rt reqs (companies_request ?p) = Resolved st txt (Inr d)"
    using assms(1) by (simp only: category_request)
  moreover have "response_ok st" using assms(2) by (simp add: response_ok_def)
  ultimately have "getCompanies rt ?p reqs = (Inr d, reqs @ [companies_request ?p])"
    by (rule getCompanies_parsed)
  then show ?thesis using assms(3) by (simp add: getCompaniesByCategory_def category_request)
qed

lemma array_sort_stable:
  "filter (\<lambda>x. views x + likes x = k) (array_sort engagement_compare xs)
     = filter (\<lambda>x. views x + likes x = k) xs"
proof -
  have "filter (\<lambda>x. - (views x + likes x) = - k) (sort_key (\<lambda>c. - (views c + likes c)) xs)
          = filter (\<lambda>x. - (views x + likes x) = - k) xs"
    by (rule sort_key_stable)
  moreover have "(\<lambda>x::Company. - (views x + likes x) = - k) = (\<lambda>x. views x + likes x = k)"
    by (intro ext) auto
  ultimately show ?thesis by (simp only: array_sort_engagement)
qed

lemma parseInt10_examples:
  "parseInt10 ''2'' = Some 2" "parseInt10 ''-1'' = Some (- 1)" "parseInt10 ''0'' = Some 0"
  "parseInt10 ''abc'' = None" "parseInt10 '' 12px'' = Some 12"
  by (simp_all add: parseInt10_def isWhiteSpace_def isDigit_def digits_value_def)

lemma number_toString_2: "number_toString 2 = ''2''"
  by (simp add: number_toString_def string_of_nat.simps digit_char_def)

text \<open>
  C9, as the specification states it, fails: the limit is a free string, and with the
  limit -1 and three candidates the comparison holds the two best ranked candidates,
  which is the ranking without its last company and not a ranking cut to a count.
\<close>

theorem compare_companies_negative_limit_counterexample:
  "fst (compare_companies (fixture_runtime
          (ok_companies [fixture_company ''a'' ''AI'' 1 2, fixture_company ''b'' ''AI'' 5 5,
                         fixture_company ''c'' ''AI'' 3 0]) network_down) (Some ''AI'') (Some ''-1'') [])
     = Inr (UserMessage
         [Lit (''Please compare the following 2 companies in the '' @ [CHR 0x22] @ ''AI'' @ [CHR 0x22]
               @ '' category:\<newline>\<newline>''),
          Json (JArr
            [JObj [(''name'', JStr ''b''), (''description'', JStr []), (''founder'', JStr []),
                   (''verification'', JStr ''verified''),
                   (''engagement'', JObj [(''likes'', JNum 5), (''views'', JNum 5)]),
                   (''hasAffiliateProgram'', JBool False), (''teamSize'', JNum 0), (''url'', JStr [])],
             JObj [(''name'', JStr ''a''), (''description'', JStr []), (''founder'', JStr []),
                   (''verification'', JStr ''verified''),
                   (''engagement'', JObj [(''likes'', JNum 1), (''views'', JNum 2)]),
                   (''hasAffiliateProgram'', JBool False), (''teamSize'', JNum 0), (''url'', JStr [])]]),
          Lit ''\<newline>\<newline>Please provide a detailed comparison covering:\<newline>1. Market positioning and unique value propositions\<newline>2. Founder backgrounds and leadership styles\<newline>3. User engagement and community presence\<newline>4. Business model differences\<newline>5. Partnership and growth opportunities\<newline>6. Competitive advantages and weaknesses\<newline>7. Recommendations for each company's improvement areas\<newline>\<newline>Rank them by overall potential and explain your reasoning.''])"
  by (simp add: comparison_request_def compare_companies_def getCompaniesByCategory_def getCompanies_def fetch_def
      fixture_runtime_def ok_companies_def response_ok_def truthy_def interpolate_def numLimit_def
      parseInt10_def isWhiteSpace_def isDigit_def digits_value_def slice0_number_def slice0_def
      array_sort_def engagement_compare_def fixture_company_def comparison_message_def
      company_data_def or_zero_def dquote_def number_toString_def string_of_nat.simps digit_char_def)

text \<open>
  C9, amended. With a non-empty category whose listing is answered with a successful
  envelope, compare_companies ranks the candidates by views plus likes, descending,
  candidates of equal rank in the order of the listing, and cuts the ranking with
  slice(0, n), where n is 5 when the limit is absent or empty and parseInt(limit, 10)
  otherwise. For n at least 0 that is the first n companies of the ranking, for a
  negative n the ranking without its last -n companies, for NaN nothing. When companies
  remain, the message states their number and embeds their data in ranking order; when
  none remains (n is 0 or NaN, or a negative n removes them all), the prompt answers
  with the no-companies message instead.
\<close>

theorem compare_companies_ranked:
  assumes up: "directory rt reqs \<lparr>endpoint = ''https://api.blockza.io/api/directory'',
                   searchParams = [(''category'', c)]\<rparr> = Resolved st txt (Inr d)"
    and ok: "200 \<le> st \<and> st \<le> 299" and succ: "success d"
    and cat: "c \<noteq> []"
  shows "\<exists>ranked top.
           mset ranked = mset (data d)
         \<and> sorted_wrt (\<lambda>a b. views a + likes a \<ge> views b + likes b) ranked
         \<and> (\<forall>k. filter (\<lambda>x. views x + likes x = k) ranked = filter (\<lambda>x. views x + likes x = k) (data d))
         \<and> top = (case (case lmt of None \<Rightarrow> Some 5 | Some s \<Rightarrow> if s = [] then Some 5 else parseInt10 s) of
                    None \<Rightarrow> []
                  | Some n \<Rightarrow> if n < 0 then take (length ranked - nat (- n)) ranked else take (nat n) ranked)
         \<and> fst (compare_companies rt (Some c) lmt reqs) = Inr (UserMessage
              (if top = []
               then [Lit (''No companies found in category '' @ [CHR 0x22] @ c @ [CHR 0x22]
                          @ ''. Please suggest how to find companies in this category or recommend similar categories.'')]
               else [Lit (''Please compare the following '' @ number_toString (int (length top))
                          @ '' companies in the '' @ [CHR 0x22] @ c @ [CHR 0x22] @ '' category:\<newline>\<newline>''),
                     Json (JArr (map (\<lambda>x. JObj
                       [(''name'', JStr (Company.name x)), (''description'', JStr (shortDescription x)),
                        (''founder'', JStr (founderName x)), (''verification'', JStr (verificationStatus x)),
                        (''engagement'', JObj [(''likes'', JNum (likes x)), (''views'', JNum (views x))]),
                        (''hasAffiliateProgram'', JBool (hasAffiliateProgram (promotionSettings x))),
                        (''teamSize'', JNum (int (length (teamMembers x)))), (''url'', JStr (url x))]) top)),
                     Lit ''\<newline>\<newline>Please provide a detailed comparison covering:\<newline>1. Market positioning and unique value propositions\<newline>2. Founder backgrounds and leadership styles\<newline>3. User engagement and community presence\<newline>4. Business model differences\<newline>5. Partnership and growth opportunities\<newline>6. Competitive advantages and weaknesses\<newline>7. Recommendations for each company's improvement areas\<newline>\<newline>Rank them by overall potential and explain your reasoning.'']))"
proof -
  let ?ranked = "array_sort engagement_compare (data d)"
  let ?k = "case lmt of None \<Rightarrow> Some 5 | Some s \<Rightarrow> if s = [] then Some 5 else parseInt10 s"
  let ?top = "case ?k of None \<Rightarrow> []
                | Some n \<Rightarrow> if n < 0 then take (length ?ranked - nat (- n)) ?ranked else take (nat n) ?ranked"
  have up': "directory rt reqs \<lparr>endpoint = ''https://api.blockza.io/api/directory'',
                   searchParams = (if c = [] then [] else [(''category'', c)])\<rparr> = Resolved st txt (Inr d)"
    using up cat by simp
  have gc: "getCompaniesByCategory rt c reqs
              = (Inr (data d), reqs @ [\<lparr>endpoint = ''https://api.blockza.io/api/directory'',
                   searchParams = [(''category'', c)]\<rparr>])"
    using getCompaniesByCategory_listing [OF up' ok succ] cat by simp
  have nl: "numLimit lmt = ?k"
    by (cases lmt) (simp_all add: numLimit_def numLimit_default [unfolded numLimit_def, simplified])
  have sl: "slice0_number ?ranked (numLimit lmt) = ?top"
  proof (cases ?k)
    case None
    then show ?thesis by (simp add: nl slice0_number_def)
  next
    case (Some n)
    have "nat (int (length ?ranked) + n) = length ?ranked - nat (- n)" if "n < 0"
      using that by linarith
    then show ?thesis using Some by (simp add: nl slice0_number_def slice0_def)
  qed
  have cd: "company_data = (\<lambda>x. JObj
                       [(''name'', JStr (Company.name x)), (''description'', JStr (shortDescription x)),
                        (''founder'', JStr (founderName x)), (''verification'', JStr (verificationStatus x)),
                        (''engagement'', JObj [(''likes'', JNum (likes x)), (''views'', JNum (views x))]),
                        (''hasAffiliateProgram'', JBool (hasAffiliateProgram (promotionSettings x))),
                        (''teamSize'', JNum (int (length (teamMembers x)))), (''url'', JStr (url x))])"
    by (intro ext) (simp add: company_data_def or_zero_def)
  have res: "fst (compare_companies rt (Some c) lmt reqs) = Inr (UserMessage
              (if ?top = []
               then [Lit (''No companies found in category '' @ [CHR 0x22] @ c @ [CHR 0x22]
                          @ ''. Please suggest how to find companies in this category or recommend similar categories.'')]
               else [Lit (''Please compare the following '' @ number_toString (int (length ?top))
                          @ '' companies in the '' @ [CHR 0x22] @ c @ [CHR 0x22] @ '' category:\<newline>\<newline>''),
                     Json (JArr (map company_data ?top)),
                     Lit ''\<newline>\<newline>Please provide a detailed comparison covering:\<newline>1. Market positioning and unique value propositions\<newline>2. Founder backgrounds and leadership styles\<newline>3. User engagement and community presence\<newline>4. Business model differences\<newline>5. Partnership and growth opportunities\<newline>6. Competitive advantages and weaknesses\<newline>7. Recommendations for each company's improvement areas\<newline>\<newline>Rank them by overall potential and explain your reasoning.'']))"
    using cat
    by (simp add: compare_companies_def truthy_def interpolate_def gc Let_def sl
        no_companies_message_def comparison_message_def comparison_request_def dquote_def)
  show ?thesis
    apply (rule exI [of _ ?ranked])
    apply (rule exI [of _ ?top])
    apply (intro conjI allI)
    apply (simp add: array_sort_ranked)
    apply (simp add: array_sort_ranked)
    apply (rule array_sort_stable)
    apply (rule refl)
    apply (rule res [unfolded cd])
    done
qed

text \<open>
  A run of the amended C9 with the limit 2 on three companies, and the comparison it
  produces: the companies with 10 and with 3 views and likes; of the two companies with
  3, the one listed first is kept.
\<close>

theorem compare_companies_ranked_witness:
  "\<exists>ranked. mset ranked = mset [fixture_company ''a'' ''AI'' 1 2, fixture_company ''b'' ''AI'' 5 5,
                                   fixture_company ''c'' ''AI'' 3 0]
     \<and> sorted_wrt (\<lambda>a b. views a + likes a \<ge> views b + likes b) ranked
     \<and> fst (compare_companies (fixture_runtime
              (ok_companies [fixture_company ''a'' ''AI'' 1 2, fixture_company ''b'' ''AI'' 5 5,
                             fixture_company ''c'' ''AI'' 3 0]) network_down) (Some ''AI'') (Some ''2'') [])
         = Inr (UserMessage
             [Lit (''Please compare the following 2 companies in the '' @ [CHR 0x22] @ ''AI'' @ [CHR 0x22]
                   @ '' category:\<newline>\<newline>''),
              Json (JArr (map (\<lambda>x. JObj
                       [(''name'', JStr (Company.name x)), (''description'', JStr (shortDescription x)),
                        (''founder'', JStr (founderName x)), (''verification'', JStr (verificationStatus x)),
                        (''engagement'', JObj [(''likes'', JNum (likes x)), (''views'', JNum (views x))]),
                        (''hasAffiliateProgram'', JBool (hasAffiliateProgram (promotionSettings x))),
                        (''teamSize'', JNum (int (length (teamMembers x)))), (''url'', JStr (url x))])
                     (take 2 ranked))),
              Lit ''\<newline>\<newline>Please provide a detailed comparison covering:\<newline>1. Market positioning and unique value propositions\<newline>2. Founder backgrounds and leadership styles\<newline>3. User engagement and community presence\<newline>4. Business model differences\<newline>5. Partnership and growth opportunities\<newline>6. Competitive advantages and weaknesses\<newline>7. Recommendations for each company's improvement areas\<newline>\<newline>Rank them by overall potential and explain your reasoning.''])"
proof -
  let ?cs = "[fixture_company ''a'' ''AI'' 1 2, fixture_company ''b'' ''AI'' 5 5,
              fixture_company ''c'' ''AI'' 3 0]"
  let ?rt = "fixture_runtime (ok_companies ?cs) network_down"
  have h1: "directory ?rt [] \<lparr>endpoint = ''https://api.blockza.io/api/directory'',
               searchParams = [(''category'', ''AI'')]\<rparr>
              = Resolved 200 ''OK'' (Inr \<lparr>success = True, data = ?cs\<rparr>)"
    by (simp add: fixture_runtime_def ok_companies_def)
  have h2: "(200::int) \<le> 200 \<and> (200::int) \<le> 299" by simp
  have h3: "success \<lparr>success = True, data = ?cs\<rparr>" by simp
  have h4: "''AI'' \<noteq> []" by simp
  from compare_companies_ranked [OF h1 h2 h3 h4, of "Some ''2''"]
  obtain ranked top where m: "mset ranked = mset (data \<lparr>success = True, data = ?cs\<rparr>)"
    and s: "sorted_wrt (\<lambda>a b. views a + likes a \<ge> views b + likes b) ranked"
    and t: "top = (case (case Some ''2'' of None \<Rightarrow> Some 5 | Some s \<Rightarrow> if s = [] then Some 5 else parseInt10 s) of
                    None \<Rightarrow> []
                  | Some n \<Rightarrow> if n < 0 then take (length ranked - nat (- n)) ranked else take (nat n) ranked)"
    and r: "fst (compare_companies ?rt (Some ''AI'') (Some ''2'') []) = Inr (UserMessage
              (if top = []
               then [Lit (''No companies found in category '' @ [CHR 0x22] @ ''AI'' @ [CHR 0x22]
                          @ ''. Please suggest how to find companies in this category or recommend similar categories.'')]
               else [Lit (''Please compare the following '' @ number_toString (int (length top))
                          @ '' companies in the '' @ [CHR 0x22] @ ''AI'' @ [CHR 0x22] @ '' category:\<newline>\<newline>''),
                     Json (JArr (map (\<lambda>x. JObj
                       [(''name'', JStr (Company.name x)), (''description'', JStr (shortDescription x)),
                        (''founder'', JStr (founderName x)), (''verification'', JStr (verificationStatus x)),
                        (''engagement'', JObj [(''likes'', JNum (likes x)), (''views'', JNum (views x))]),
                        (''hasAffiliateProgram'', JBool (hasAffiliateProgram (promotionSettings x))),
                        (''teamSize'', JNum (int (length (teamMembers x)))), (''url'', JStr (url x))]) top)),
                     Lit ''\<newline>\<newline>Please provide a detailed comparison covering:\<newline>1. Market positioning and unique value propositions\<newline>2. Founder backgrounds and leadership styles\<newline>3. User engagement and community presence\<newline>4. Business model differences\<newline>5. Partnership and growth opportunities\<newline>6. Competitive advantages and weaknesses\<newline>7. Recommendations for each company's improvement areas\<newline>\<newline>Rank them by overall potential and explain your reasoning.'']))"
    by blast
  from m have "length ranked = length (data \<lparr>success = True, data = ?cs\<rparr>)"
    by (rule mset_eq_length)
  then have l: "length ranked = 3" by simp
  have t2: "top = take 2 ranked" using t by (simp add: parseInt10_examples)
  with l have ne: "top \<noteq> []" and len: "length top = 2" by auto
  have m': "mset ranked = mset ?cs" using m by simp
  have "fst (compare_companies ?rt (Some ''AI'') (Some ''2'') [])
         = Inr (UserMessage
             [Lit (''Please compare the following 2 companies in the '' @ [CHR 0x22] @ ''AI'' @ [CHR 0x22]
                   @ '' category:\<newline>\<newline>''),
              Json (JArr (map (\<lambda>x. JObj
                       [(''name'', JStr (Company.name x)), (''description'', JStr (shortDescription x)),
                        (''founder'', JStr (founderName x)), (''verification'', JStr (verificationStatus x)),
                        (''engagement'', JObj [(''likes'', JNum (likes x)), (''views'', JNum (views x))]),
                        (''hasAffiliateProgram'', JBool (hasAffiliateProgram (promotionSettings x))),
                        (''teamSize'', JNum (int (length (teamMembers x)))), (''url'', JStr (url x))])
                     (take 2 ranked))),
              Lit ''\<newline>\<newline>Please provide a detailed comparison covering:\<newline>1. Market positioning and unique value propositions\<newline>2. Founder backgrounds and leadership styles\<newline>3. User engagement and community presence\<newline>4. Business model differences\<newline>5. Partnership and growth opportunities\<newline>6. Competitive advantages and weaknesses\<newline>7. Recommendations for each company's improvement areas\<newline>\<newline>Rank them by overall potential and explain your reasoning.''])"
    using r ne len by (simp add: number_toString_2 t2 [symmetric])
  with m' s show ?thesis by blast
qed

lemma compare_companies_example:
  "fst (compare_companies (fixture_runtime
              (ok_companies [fixture_company ''a'' ''AI'' 1 2, fixture_company ''b'' ''AI'' 5 5,
                             fixture_company ''c'' ''AI'' 3 0]) network_down) (Some ''AI'') (Some ''2'') [])
            = Inr (comparison_message ''AI'' [fixture_company ''b'' ''AI'' 5 5, fixture_company ''a'' ''AI'' 1 2])"
  by (simp add: compare_companies_def getCompaniesByCategory_def getCompanies_def fetch_def fixture_runtime_def
        ok_companies_def response_ok_def truthy_def interpolate_def numLimit_def parseInt10_def isWhiteSpace_def isDigit_def digits_value_def
        slice0_number_def slice0_def array_sort_def engagement_compare_def fixture_company_def)

subsection \<open>The limit 0\<close>

lemma getCompaniesByCategory_returns: "\<exists>cs. fst (getCompaniesByCategory rt cat reqs) = Inr cs"
  by (cases "getCompanies rt (no_company_params\<lparr>CompanyParams.category := Some cat\<rparr>) reqs")
     (auto simp add: getCompaniesByCategory_def split: sum.splits)

lemma getEventsByCategory_returns: "\<exists>evs. fst (getEventsByCategory rt cat reqs) = Inr evs"
  by (cases "getEvents rt (no_event_params\<lparr>EventParams.category := Some cat\<rparr>) reqs")
     (auto simp add: getEventsByCategory_def split: sum.splits)

lemma params_set_if_number:
  "k \<notin> fst ` set (searchParams r) \<Longrightarrow>
   set_if_number k v r = r\<lparr>searchParams := searchParams r @
     (case v of None \<Rightarrow> [] | Some n \<Rightarrow> if n = 0 then [] else [(k, number_toString n)])\<rparr>"
  by (simp add: set_if_number_def searchParams_set_def split: option.splits)

lemma params_set_if_string:
  "k \<notin> fst ` set (searchParams r) \<Longrightarrow>
   set_if_string k v r = r\<lparr>searchParams := searchParams r @
     (case v of None \<Rightarrow> [] | Some s \<Rightarrow> if s = [] then [] else [(k, s)])\<rparr>"
  by (simp add: set_if_string_def searchParams_set_def split: option.splits)

lemma params_set_if_defined:
  "k \<notin> fst ` set (searchParams r) \<Longrightarrow>
   set_if_defined k v r = r\<lparr>searchParams := searchParams r @
     (case v of None \<Rightarrow> [] | Some b \<Rightarrow> [(k, if b then ''true'' else ''false'')])\<rparr>"
  by (simp add: set_if_defined_def searchParams_set_def boolean_toString_def split: option.splits)

lemma keys_number_part:
  "fst ` set (case v of None \<Rightarrow> [] | Some n \<Rightarrow> if n = 0 then [] else [(k, number_toString n)]) \<subseteq> {k}"
  by (cases v) auto

lemma keys_string_part:
  "fst ` set (case v of None \<Rightarrow> [] | Some s \<Rightarrow> if s = [] then [] else [(k, s)]) \<subseteq> {k}"
  by (cases v) auto

lemma companies_request_open:
  "companies_request p = \<lparr>endpoint = ''https://api.blockza.io/api/directory'',
     searchParams =
       (case CompanyParams.limit p of None \<Rightarrow> []
        | Some n \<Rightarrow> if n = 0 then [] else [(''limit'', number_toString n)])
       @ (case CompanyParams.category p of None \<Rightarrow> [] | Some s \<Rightarrow> if s = [] then [] else [(''category'', s)])
       @ (case CompanyParams.search p of None \<Rightarrow> [] | Some s \<Rightarrow> if s = [] then [] else [(''search'', s)])
       @ (case CompanyParams.verified p of None \<Rightarrow> []
          | Some b \<Rightarrow> [(''verified'', if b then ''true'' else ''false'')])\<rparr>"
proof -
  let ?L = "case CompanyParams.limit p of None \<Rightarrow> []
            | Some n \<Rightarrow> if n = 0 then [] else [(''limit'', number_toString n)]"
  let ?C = "case CompanyParams.category p of None \<Rightarrow> [] | Some s \<Rightarrow> if s = [] then [] else [(''category'', s)]"
  let ?S = "case CompanyParams.search p of None \<Rightarrow> [] | Some s \<Rightarrow> if s = [] then [] else [(''search'', s)]"
  let ?r0 = "\<lparr>endpoint = baseUrl, searchParams = []\<rparr>"
  have kL: "fst ` set ?L \<subseteq> {''limit''}" by (rule keys_number_part)
  have kC: "fst ` set ?C \<subseteq> {''category''}" by (rule keys_string_part)
  have kS: "fst ` set ?S \<subseteq> {''search''}" by (rule keys_string_part)
  have 1: "set_if_number ''limit'' (CompanyParams.limit p) ?r0 = \<lparr>endpoint = baseUrl, searchParams = ?L\<rparr>"
    by (simp add: params_set_if_number)
  have "''category'' \<notin> fst ` set ?L" using kL by auto
  then have 2: "set_if_string ''category'' (CompanyParams.category p) \<lparr>endpoint = baseUrl, searchParams = ?L\<rparr>
                  = \<lparr>endpoint = baseUrl, searchParams = ?L @ ?C\<rparr>"
    by (simp add: params_set_if_string)
  have "''search'' \<notin> fst ` set (?L @ ?C)" using kL kC by auto
  then have 3: "set_if_string ''search'' (CompanyParams.search p) \<lparr>endpoint = baseUrl, searchParams = ?L @ ?C\<rparr>
                  = \<lparr>endpoint = baseUrl, searchParams = (?L @ ?C) @ ?S\<rparr>"
    by (simp add: params_set_if_string)
  have "''verified'' \<notin> fst ` set ((?L @ ?C) @ ?S)" using kL kC kS by auto
  then have 4: "set_if_defined ''verified'' (CompanyParams.verified p) \<lparr>endpoint = baseUrl, searchParams = (?L @ ?C) @ ?S\<rparr>
                  = \<lparr>endpoint = baseUrl, searchParams = ((?L @ ?C) @ ?S) @
                      (case CompanyParams.verified p of None \<Rightarrow> []
                       | Some b \<Rightarrow> [(''verified'', if b then ''true'' else ''false'')])\<rparr>"
    by (simp add: params_set_if_defined)
  show ?thesis
    unfolding companies_request_def 1 2 3 4 by (simp add: baseUrl_def)
qed

lemma events_request_open:
  "events_request p = \<lparr>endpoint = ''https://api.blockza.io/api/events'',
     searchParams =
       (case EventParams.limit p of None \<Rightarrow> []
        | Some n \<Rightarrow> if n = 0 then [] else [(''limit'', number_toString n)])
       @ (case EventParams.category p of None \<Rightarrow> [] | Some s \<Rightarrow> if s = [] then [] else [(''category'', s)])
       @ (case EventParams.search p of None \<Rightarrow> [] | Some s \<Rightarrow> if s = [] then [] else [(''search'', s)])
       @ (case EventParams.country p of None \<Rightarrow> [] | Some s \<Rightarrow> if s = [] then [] else [(''country'', s)])
       @ (case EventParams.city p of None \<Rightarrow> [] | Some s \<Rightarrow> if s = [] then [] else [(''city'', s)])
       @ (case EventParams.upcoming p of None \<Rightarrow> []
          | Some b \<Rightarrow> [(''upcoming'', if b then ''true'' else ''false'')])\<rparr>"
proof -
  let ?L = "case EventParams.limit p of None \<Rightarrow> []
            | Some n \<Rightarrow> if n = 0 then [] else [(''limit'', number_toString n)]"
  let ?C = "case EventParams.category p of None \<Rightarrow> [] | Some s \<Rightarrow> if s = [] then [] else [(''category'', s)]"
  let ?S = "case EventParams.search p of None \<Rightarrow> [] | Some s \<Rightarrow> if s = [] then [] else [(''search'', s)]"
  let ?N = "case EventParams.country p of None \<Rightarrow> [] | Some s \<Rightarrow> if s = [] then [] else [(''country'', s)]"
  let ?T = "case EventParams.city p of None \<Rightarrow> [] | Some s \<Rightarrow> if s = [] then [] else [(''city'', s)]"
  let ?r0 = "\<lparr>endpoint = eventsUrl, searchParams = []\<rparr>"
  have kL: "fst ` set ?L \<subseteq> {''limit''}" by (rule keys_number_part)
  have kC: "fst ` set ?C \<subseteq> {''category''}" by (rule keys_string_part)
  have kS: "fst ` set ?S \<subseteq> {''search''}" by (rule keys_string_part)
  have kN: "fst ` set ?N \<subseteq> {''country''}" by (rule keys_string_part)
  have kT: "fst ` set ?T \<subseteq> {''city''}" by (rule keys_string_part)
  have 1: "set_if_number ''limit'' (EventParams.limit p) ?r0 = \<lparr>endpoint = eventsUrl, searchParams = ?L\<rparr>"
    by (simp add: params_set_if_number)
  have "''category'' \<notin> fst ` set ?L" using kL by auto
  then have 2: "set_if_string ''category'' (EventParams.category p) \<lparr>endpoint = eventsUrl, searchParams = ?L\<rparr>
                  = \<lparr>endpoint = eventsUrl, searchParams = ?L @ ?C\<rparr>"
    by (simp add: params_set_if_string)
  have "''search'' \<notin> fst ` set (?L @ ?C)" using kL kC by auto
  then have 3: "set_if_string ''search'' (EventParams.search p) \<lparr>endpoint = eventsUrl, searchParams = ?L @ ?C\<rparr>
                  = \<lparr>endpoint = eventsUrl, searchParams = (?L @ ?C) @ ?S\<rparr>"
    by (simp add: params_set_if_string)
  have "''country'' \<notin> fst ` set ((?L @ ?C) @ ?S)" using kL kC kS by auto
  then have 4: "set_if_string ''country'' (EventParams.country p) \<lparr>endpoint = eventsUrl, searchParams = (?L @ ?C) @ ?S\<rparr>
                  = \<lparr>endpoint = eventsUrl, searchParams = ((?L @ ?C) @ ?S) @ ?N\<rparr>"
    by (simp add: params_set_if_string)
  have "''city'' \<notin> fst ` set (((?L @ ?C) @ ?S) @ ?N)" using kL kC kS kN by auto
  then have 5: "set_if_string ''city'' (EventParams.city p) \<lparr>endpoint = eventsUrl, searchParams = ((?L @ ?C) @ ?S) @ ?N\<rparr>
                  = \<lparr>endpoint = eventsUrl, searchParams = (((?L @ ?C) @ ?S) @ ?N) @ ?T\<rparr>"
    by (simp add: params_set_if_string)
  have "''upcoming'' \<notin> fst ` set ((((?L @ ?C) @ ?S) @ ?N) @ ?T)" using kL kC kS kN kT by auto
  then have 6: "set_if_defined ''upcoming'' (EventParams.upcoming p)
                    \<lparr>endpoint = eventsUrl, searchParams = (((?L @ ?C) @ ?S) @ ?N) @ ?T\<rparr>
                  = \<lparr>endpoint = eventsUrl, searchParams = ((((?L @ ?C) @ ?S) @ ?N) @ ?T) @
                      (case EventParams.upcoming p of None \<Rightarrow> []
                       | Some b \<Rightarrow> [(''upcoming'', if b then ''true'' else ''false'')])\<rparr>"
    by (simp add: params_set_if_defined)
  show ?thesis
    unfolding events_request_def 1 2 3 4 5 6 by (simp add: eventsUrl_def)
qed

lemma getCompanies_request: "snd (getCompanies rt p reqs) = reqs @ [companies_request p]"
  by (simp add: getCompanies_def fetch_def split: fetch_result.splits)

lemma getEvents_request: "snd (getEvents rt p reqs) = reqs @ [events_request p]"
  by (simp add: getEvents_def fetch_def split: fetch_result.splits sum.splits events_json.splits)

text \<open>
  C10. With the limit 0, get_companies_by_category (in both of its shapes),
  get_events_by_category and get_upcoming_events answer without error flag, with the
  summaries of every record the client fetched and with their number in the sentence;
  and the requests of getCompanies and getEvents for parameters with the limit 0 carry
  the other parameters and no limit parameter.
\<close>

theorem zero_limit_is_no_limit:
  "(\<exists>cs. fst (getCompaniesByCategory rt cat reqs) = Inr cs
      \<and> fst (get_companies_by_category rt cat (Some 0) reqs)
          = \<lparr>content =
               [Lit ''COMPANIES_DATA_START\<newline>'',
                Json (JArr (map (\<lambda>c. JObj [(''_id'', JStr (Company.id' c)), (''name'', JStr (Company.name c)),
                    (''slug'', JStr (slug c)), (''category'', JStr (Company.category c)),
                    (''shortDescription'', JStr (shortDescription c)), (''logo'', JStr (logo c)),
                    (''banner'', JStr (banner c)), (''founderName'', JStr (founderName c)),
                    (''verificationStatus'', JStr (verificationStatus c)), (''url'', JStr (url c)),
                    (''likes'', JNum (likes c)), (''views'', JNum (views c))]) cs)),
                Lit (''\<newline>COMPANIES_DATA_END\<newline>\<newline>Found '' @ number_toString (int (length cs))
                     @ '' companies in category '' @ [CHR 0x22] @ cat @ [CHR 0x22] @ ''.'')],
              isError = False\<rparr>
      \<and> fst (get_companies_by_category_index rt cat (Some 0) reqs)
          = \<lparr>content =
               [Lit (''Found '' @ number_toString (int (length cs)) @ '' companies in category ''
                     @ [CHR 0x22] @ cat @ [CHR 0x22] @ '':\<newline>\<newline>''),
                Json (JArr (map (\<lambda>c. JObj [(''name'', JStr (Company.name c)), (''slug'', JStr (slug c)),
                    (''shortDescription'', JStr (shortDescription c)), (''founderName'', JStr (founderName c)),
                    (''verificationStatus'', JStr (verificationStatus c)), (''url'', JStr (url c)),
                    (''likes'', JNum (likes c)), (''views'', JNum (views c))]) cs))],
              isError = False\<rparr>)
   \<and> (\<exists>evs. fst (getEventsByCategory rt cat reqs) = Inr evs
      \<and> fst (get_events_by_category rt cat (Some 0) reqs)
          = \<lparr>content =
               [Lit ''EVENTS_DATA_START\<newline>'',
                Json (JArr (map (\<lambda>e. JObj [(''id'', JStr (Event.id' e)), (''title'', JStr (Event.title e)),
                    (''company'', JStr (company e)),
                    (''location'', JStr (Event.city e @ '', '' @ Event.country e)),
                    (''eventStartDate'', JStr (eventStartDate e)), (''eventEndDate'', JStr (eventEndDate e)),
                    (''website'', JStr (website e))]) evs)),
                Lit (''\<newline>EVENTS_DATA_END\<newline>\<newline>Found '' @ number_toString (int (length evs))
                     @ '' events in category '' @ [CHR 0x22] @ cat @ [CHR 0x22] @ ''.'')],
              isError = False\<rparr>)
   \<and> (\<exists>evs. fst (getUpcomingEvents rt reqs) = Inr evs
      \<and> fst (get_upcoming_events rt (Some 0) reqs)
          = \<lparr>content =
               [Lit ''EVENTS_DATA_START\<newline>'',
                Json (JArr (map (\<lambda>e. JObj [(''id'', JStr (Event.id' e)), (''title'', JStr (Event.title e)),
                    (''company'', JStr (company e)), (''category'', JStr (Event.category e)),
                    (''location'', JStr (Event.city e @ '', '' @ Event.country e)),
                    (''eventStartDate'', JStr (eventStartDate e)), (''eventEndDate'', JStr (eventEndDate e)),
                    (''website'', JStr (website e))]) evs)),
                Lit (''\<newline>EVENTS_DATA_END\<newline>\<newline>Found '' @ number_toString (int (length evs))
                     @ '' upcoming events.'')],
              isError = False\<rparr>)
   \<and> snd (getCompanies rt (cp\<lparr>CompanyParams.limit := Some 0\<rparr>) reqs)
       = reqs @ [\<lparr>endpoint = ''https://api.blockza.io/api/directory'',
           searchParams =
             (case CompanyParams.category cp of None \<Rightarrow> [] | Some s \<Rightarrow> if s = [] then [] else [(''category'', s)])
             @ (case CompanyParams.search cp of None \<Rightarrow> [] | Some s \<Rightarrow> if s = [] then [] else [(''search'', s)])
             @ (case CompanyParams.verified cp of None \<Rightarrow> []
                | Some b \<Rightarrow> [(''verified'', if b then ''true'' else ''false'')])\<rparr>]
   \<and> snd (getEvents rt (ep\<lparr>EventParams.limit := Some 0\<rparr>) reqs)
       = reqs @ [\<lparr>endpoint = ''https://api.blockza.io/api/events'',
           searchParams =
             (case EventParams.category ep of None \<Rightarrow> [] | Some s \<Rightarrow> if s = [] then [] else [(''category'', s)])
             @ (case EventParams.search ep of None \<Rightarrow> [] | Some s \<Rightarrow> if s = [] then [] else [(''search'', s)])
             @ (case EventParams.country ep of None \<Rightarrow> [] | Some s \<Rightarrow> if s = [] then [] else [(''country'', s)])
             @ (case EventParams.city ep of None \<Rightarrow> [] | Some s \<Rightarrow> if s = [] then [] else [(''city'', s)])
             @ (case EventParams.upcoming ep of None \<Rightarrow> []
                | Some b \<Rightarrow> [(''upcoming'', if b then ''true'' else ''false'')])\<rparr>]"
proof -
  have cs: "company_summary = (\<lambda>c. JObj [(''_id'', JStr (Company.id' c)), (''name'', JStr (Company.name c)),
                    (''slug'', JStr (slug c)), (''category'', JStr (Company.category c)),
                    (''shortDescription'', JStr (shortDescription c)), (''logo'', JStr (logo c)),
                    (''banner'', JStr (banner c)), (''founderName'', JStr (founderName c)),
                    (''verificationStatus'', JStr (verificationStatus c)), (''url'', JStr (url c)),
                    (''likes'', JNum (likes c)), (''views'', JNum (views c))])"
    by (intro ext) (simp add: company_summary_def)
  have ci: "company_summary_index = (\<lambda>c. JObj [(''name'', JStr (Company.name c)), (''slug'', JStr (slug c)),
                    (''shortDescription'', JStr (shortDescription c)), (''founderName'', JStr (founderName c)),
                    (''verificationStatus'', JStr (verificationStatus c)), (''url'', JStr (url c)),
                    (''likes'', JNum (likes c)), (''views'', JNum (views c))])"
    by (intro ext) (simp add: company_summary_index_def)
  have ec: "event_summary_by_category = (\<lambda>e. JObj [(''id'', JStr (Event.id' e)), (''title'', JStr (Event.title e)),
                    (''company'', JStr (company e)),
                    (''location'', JStr (Event.city e @ '', '' @ Event.country e)),
                    (''eventStartDate'', JStr (eventStartDate e)), (''eventEndDate'', JStr (eventEndDate e)),
                    (''website'', JStr (website e))])"
    by (intro ext) (simp add: event_summary_by_category_def event_location_def)
  have es: "event_summary = (\<lambda>e. JObj [(''id'', JStr (Event.id' e)), (''title'', JStr (Event.title e)),
                    (''company'', JStr (company e)), (''category'', JStr (Event.category e)),
                    (''location'', JStr (Event.city e @ '', '' @ Event.country e)),
                    (''eventStartDate'', JStr (eventStartDate e)), (''eventEndDate'', JStr (eventEndDate e)),
                    (''website'', JStr (website e))])"
    by (intro ext) (simp add: event_summary_def event_location_def)
  from getCompaniesByCategory_returns [of rt cat reqs] obtain cs0 where
    g1: "fst (getCompaniesByCategory rt cat reqs) = Inr cs0" by blast
  have 1: "fst (get_companies_by_category rt cat (Some 0) reqs)
             = tool_text (companies_text (map company_summary cs0)
                 ('' companies in category '' @ dquote @ cat @ dquote @ ''.''))"
    using g1 by (cases "getCompaniesByCategory rt cat reqs")
      (simp add: get_companies_by_category_def apply_limit_def)
  have ix: "fst (get_companies_by_category_index rt cat (Some 0) reqs)
             = tool_text [Lit (''Found '' @ number_toString (int (length cs0))
                    @ '' companies in category '' @ dquote @ cat @ dquote @ '':\<newline>\<newline>''),
                  Json (JArr (map company_summary_index cs0))]"
    using g1 by (cases "getCompaniesByCategory rt cat reqs")
      (simp add: get_companies_by_category_index_def apply_limit_def)
  from getEventsByCategory_returns [of rt cat reqs] obtain evs1 where
    g2: "fst (getEventsByCategory rt cat reqs) = Inr evs1" by blast
  have 2: "fst (get_events_by_category rt cat (Some 0) reqs)
             = tool_text (events_text (map event_summary_by_category evs1)
                 ('' events in category '' @ dquote @ cat @ dquote @ ''.''))"
    using g2 by (cases "getEventsByCategory rt cat reqs")
      (simp add: get_events_by_category_def apply_limit_def)
  from getUpcomingEvents_returns [of rt reqs] obtain evs2 where
    g3: "fst (getUpcomingEvents rt reqs) = Inr evs2" by blast
  have 3: "fst (get_upcoming_events rt (Some 0) reqs)
             = tool_text (events_text (map event_summary evs2) '' upcoming events.'')"
    using g3 by (cases "getUpcomingEvents rt reqs")
      (simp add: get_upcoming_events_def apply_limit_def)
  show ?thesis
    apply (intro conjI)
    apply (rule exI [of _ cs0])
    apply (simp add: g1 1 ix tool_text_def companies_text_def dquote_def cs ci)
    apply (rule exI [of _ evs1])
    apply (simp add: g2 2 tool_text_def events_text_def dquote_def ec)
    apply (rule exI [of _ evs2])
    apply (simp add: g3 3 tool_text_def events_text_def es)
    apply (simp add: getCompanies_request companies_request_open)
    apply (simp add: getEvents_request events_request_open)
    done
qed

end
